theory Spec2Isabelle
  imports Complex_Main
begin

section \<open>Values and strings of the JavaScript program\<close>

text \<open>
  The predictor proxy of \<^verbatim>\<open>src/server.js\<close> (lines 130 to 260) handles JSON values it
  never inspects beyond their truthiness. A value is what \<^verbatim>\<open>JSON.parse\<close> or
  \<^verbatim>\<open>jwt.verify\<close> hands to the program; numbers are the rationals their literals denote.
  Strings are \<open>string\<close>s of 8-bit characters.
\<close>

datatype jsval =
    JNull
  | JBool bool
  | JNum rat
  | JStr string
  | JArr "jsval list"
  | JObj "(string \<times> jsval) list"

text \<open>JavaScript's \<^verbatim>\<open>ToBoolean\<close>: what \<^verbatim>\<open>if (x)\<close> and \<^verbatim>\<open>!x\<close> test.\<close>

fun truthy :: "jsval \<Rightarrow> bool" where
  "truthy JNull = False"
| "truthy (JBool b) = b"
| "truthy (JNum n) = (n \<noteq> 0)"
| "truthy (JStr s) = (s \<noteq> [])"
| "truthy (JArr xs) = True"
| "truthy (JObj kvs) = True"

text \<open>
  Property read \<^verbatim>\<open>x.name\<close> on a non-null value: \<open>None\<close> is \<^verbatim>\<open>undefined\<close>. Only the
  own properties of an object that came from JSON are modelled.
\<close>

fun get_prop :: "jsval \<Rightarrow> string \<Rightarrow> jsval option" where
  "get_prop (JObj kvs) k = map_of kvs k"
| "get_prop v k = None"

definition truthy_opt :: "jsval option \<Rightarrow> bool" where
  "truthy_opt p = (case p of None \<Rightarrow> False | Some v \<Rightarrow> truthy v)"

text \<open>\<^verbatim>\<open>String.prototype.toLowerCase\<close> on the ASCII letters.\<close>

definition lower_char :: "char \<Rightarrow> char" where
  "lower_char c =
     (let n = (of_char c :: nat) in if 65 \<le> n \<and> n \<le> 90 then char_of (n + 32) else c)"

definition toLowerCase :: "string \<Rightarrow> string" where
  "toLowerCase s = map lower_char s"

text \<open>
  The class \<^verbatim>\<open>\s\<close> of a regular expression, on the code units below 256: TAB, LF, VT,
  FF, CR, the space and the no-break space U+00A0. A header value reaches the program
  decoded as Latin-1, one character for each byte, so these are all the white space
  characters a header can hold.
\<close>

definition is_space :: "char \<Rightarrow> bool" where
  "is_space c = (let n = (of_char c :: nat) in (9 \<le> n \<and> n \<le> 13) \<or> n = 32 \<or> n = 160)"

text \<open>
  \<^verbatim>\<open>token.replace(/^Bearer\s+/i, '')\<close>: when the string starts with the word in any
  letter case and at least one white space character follows, the word and all the white
  space after it are removed; otherwise the string is returned as it is.
\<close>

definition strip_bearer :: "string \<Rightarrow> string" where
  "strip_bearer s =
     (let rest = drop 6 s in
      if toLowerCase (take 6 s) = ''bearer'' \<and> rest \<noteq> [] \<and> is_space (hd rest)
      then dropWhile is_space rest else s)"

text \<open>\<^verbatim>\<open>s.replace(/\/$/, '')\<close>: one trailing slash is removed.\<close>

definition strip_slash :: "string \<Rightarrow> string" where
  "strip_slash s = (if s \<noteq> [] \<and> last s = CHR ''/'' then butlast s else s)"

text \<open>
  \<^verbatim>\<open>encodeURIComponent\<close>: every byte outside \<^verbatim>\<open>A-Z a-z 0-9 - _ . ! ~ * ' ( )\<close>
  becomes \<^verbatim>\<open>%XX\<close> in upper-case hexadecimal.
\<close>

definition unreserved :: "char \<Rightarrow> bool" where
  "unreserved c =
     (let n = (of_char c :: nat) in
      (65 \<le> n \<and> n \<le> 90) \<or> (97 \<le> n \<and> n \<le> 122) \<or> (48 \<le> n \<and> n \<le> 57)
      \<or> c \<in> set ''-_.!~*'()'')"

definition hex_digit :: "nat \<Rightarrow> char" where
  "hex_digit n = ''0123456789ABCDEF'' ! (n mod 16)"

definition encode_char :: "char \<Rightarrow> string" where
  "encode_char c =
     (if unreserved c then [c]
      else [CHR ''%'', hex_digit (of_char c div 16), hex_digit (of_char c mod 16)])"

definition encodeURIComponent :: "string \<Rightarrow> string" where
  "encodeURIComponent s = concat (map encode_char s)"

text \<open>\<^verbatim>\<open>s.split(',')\<close>: the pieces between the commas; the empty string gives one empty piece.\<close>

fun split_comma :: "string \<Rightarrow> string list" where
  "split_comma [] = [[]]"
| "split_comma (c # cs) =
     (if c = CHR '','' then [] # split_comma cs
      else (case split_comma cs of p # ps \<Rightarrow> (c # p) # ps | [] \<Rightarrow> [[c]]))"

section \<open>The cache (lines 138 to 151)\<close>

text \<open>
  \<^verbatim>\<open>cache\<close> is a \<^verbatim>\<open>Map\<close> from the key to \<^verbatim>\<open>{ts, ttlSec, value}\<close>. The clock
  \<^verbatim>\<open>Date.now()\<close> is an integer number of milliseconds and is passed in as \<open>now\<close>.
\<close>

record entry =
  ts :: int
  ttlSec :: rat
  val :: jsval

type_synonym cache = "string \<rightharpoonup> entry"

text \<open>\<^verbatim>\<open>setCache(key, value, ttlSec = 30)\<close>: \<open>None\<close> is the omitted third argument.\<close>

definition setCache :: "string \<Rightarrow> jsval \<Rightarrow> rat option \<Rightarrow> int \<Rightarrow> cache \<Rightarrow> cache" where
  "setCache key v ttl now c =
     c(key \<mapsto> \<lparr>ts = now, ttlSec = (case ttl of None \<Rightarrow> 30 | Some t \<Rightarrow> t), val = v\<rparr>)"

text \<open>\<^verbatim>\<open>getCache(key)\<close> returns the value or \<^verbatim>\<open>null\<close>, and the cache as it leaves it.\<close>

definition getCache :: "string \<Rightarrow> int \<Rightarrow> cache \<Rightarrow> jsval \<times> cache" where
  "getCache key now c =
     (case c key of
        None \<Rightarrow> (JNull, c)
      | Some e \<Rightarrow>
          if of_int (now - ts e) / 1000 > ttlSec e then (JNull, c(key := None))
          else (val e, c))"

text \<open>The key of line 166: \<^verbatim>\<open>`predictor:${matchId}:detail=${detail}`\<close> with a boolean \<^verbatim>\<open>detail\<close>.\<close>

definition cacheKey :: "string \<Rightarrow> bool \<Rightarrow> string" where
  "cacheKey matchId detail =
     ''predictor:'' @ matchId @ '':detail='' @ (if detail then ''true'' else ''false'')"

section \<open>Configuration and the outside world\<close>

text \<open>
  What the program reads from outside: the environment variables, the \<^verbatim>\<open>URL\<close>
  constructor (which throws on a string it cannot parse), \<^verbatim>\<open>jwt.verify\<close> of the
  \<^verbatim>\<open>jsonwebtoken\<close> package (\<open>None\<close> when it throws), and the rendering of a clock
  reading by \<^verbatim>\<open>new Date().toISOString()\<close>.
\<close>

record env =
  process_env :: "string \<rightharpoonup> string"
  valid_url :: "string \<Rightarrow> bool"
  jwt_verify :: "string \<Rightarrow> string \<Rightarrow> jsval option"
  toISOString :: "int \<Rightarrow> string"

text \<open>\<^verbatim>\<open>process.env.NAME || dflt\<close>: an unset or empty variable gives the default.\<close>

definition env_or :: "env \<Rightarrow> string \<Rightarrow> string \<Rightarrow> string" where
  "env_or E name dflt =
     (case process_env E name of None \<Rightarrow> dflt | Some s \<Rightarrow> if s = [] then dflt else s)"

definition PREDICTOR_URL :: "env \<Rightarrow> string" where
  "PREDICTOR_URL E = env_or E ''PREDICTOR_URL'' ''http://localhost:5000''"

definition PREDICTOR_API_KEY :: "env \<Rightarrow> string" where
  "PREDICTOR_API_KEY E = env_or E ''PREDICTOR_API_KEY'' []"

definition PREDICTOR_MATCH_IDS :: "env \<Rightarrow> string list" where
  "PREDICTOR_MATCH_IDS E =
     split_comma (env_or E ''PREDICTOR_MATCH_IDS'' ''m_20251115_001,m_20251115_002'')"

text \<open>
  A request to the predictor: the string given to \<^verbatim>\<open>new URL\<close>, whether the search
  parameter \<^verbatim>\<open>detail=true\<close> was set on it, and the headers object in insertion order.
\<close>

record request =
  target :: string
  detail_param :: bool
  hdrs :: "(string \<times> string) list"

text \<open>
  What the predictor does with one request. Delays are in milliseconds: the first from the
  call of \<^verbatim>\<open>fetch\<close> to the arrival of the response head or of a transport error,
  the second from the head to the end of \<^verbatim>\<open>resp.json()\<close>. The boolean is
  \<^verbatim>\<open>resp.ok\<close>.
\<close>

datatype body_read =
    BodyJson nat jsval
  | BodyError nat
  | BodyNever

datatype upstream =
    NoResponse
  | TransportError nat
  | Response nat bool body_read

text \<open>
  How an asynchronous call ends: it returns a value or throws at a clock reading, or its
  promise never settles.
\<close>

datatype 'a completion =
    Returns int 'a
  | Throws int
  | Never

record 'a result =
  outcome :: "'a completion"
  cache_after :: cache
  requests :: "request list"

section \<open>The upstream client (lines 165 to 197)\<close>

text \<open>Lines 174 to 176: the headers of the request.\<close>

definition build_headers :: "env \<Rightarrow> bool \<Rightarrow> (string \<times> string) list" where
  "build_headers E forwardApiKey =
     [(''Accept'', ''application/json'')]
     @ (if forwardApiKey \<and> PREDICTOR_API_KEY E \<noteq> [] then [(''x-api-key'', PREDICTOR_API_KEY E)]
        else [])"

text \<open>
  The part of \<^verbatim>\<open>fetchPredictorMatch\<close> that runs before its first \<^verbatim>\<open>await\<close>
  (lines 166 to 182): the cache lookup, the URL, the headers, the timer and the call of
  \<^verbatim>\<open>fetch\<close>. It ends with a cache hit, with the \<^verbatim>\<open>TypeError\<close> of \<^verbatim>\<open>new URL\<close>
  (outside the \<^verbatim>\<open>try\<close>), or with a request in flight.
\<close>

datatype started =
    Hit jsval
  | BadUrl
  | Sent request

definition start :: "env \<Rightarrow> string \<Rightarrow> bool \<Rightarrow> bool \<Rightarrow> int \<Rightarrow> cache \<Rightarrow> started \<times> cache" where
  "start E matchId detail forwardApiKey now c =
     (let key = cacheKey matchId detail;
          (cached, c1) = getCache key now c
      in if truthy cached then (Hit cached, c1)
         else
           let url = strip_slash (PREDICTOR_URL E) @ ''/predict/'' @ encodeURIComponent matchId
           in if \<not> valid_url E url then (BadUrl, c1)
              else (Sent \<lparr>target = url, detail_param = detail,
                           hdrs = build_headers E forwardApiKey\<rparr>, c1))"

text \<open>
  The rest of the function (lines 182 to 196), given what the predictor does. The timer set
  on line 180 fires 5000 ms after the call and aborts a \<^verbatim>\<open>fetch\<close> that has not
  settled by then, which makes it reject; a response head or a transport error that
  arrives earlier clears the timer (lines 183 and 193); a head due at exactly 5000 ms
  counts as too late. After the head nothing is timed: the body is read by
  \<^verbatim>\<open>resp.json()\<close> for as long as it takes. The second component is the cache write of
  line 190, with the clock reading at which it happens.
\<close>

definition settle :: "started \<Rightarrow> upstream \<Rightarrow> int \<Rightarrow> jsval completion \<times> (int \<times> jsval) option" where
  "settle st up now =
     (case st of
        Hit v \<Rightarrow> (Returns now v, None)
      | BadUrl \<Rightarrow> (Throws now, None)
      | Sent r \<Rightarrow>
          (case up of
             NoResponse \<Rightarrow> (Returns (now + 5000) JNull, None)
           | TransportError d \<Rightarrow> (Returns (now + int (min d 5000)) JNull, None)
           | Response d ok b \<Rightarrow>
               if 5000 \<le> d then (Returns (now + 5000) JNull, None)
               else if \<not> ok then (Returns (now + int d) JNull, None)
               else
                 (case b of
                    BodyJson e json \<Rightarrow>
                      (Returns (now + int d + int e) json, Some (now + int d + int e, json))
                  | BodyError e \<Rightarrow> (Returns (now + int d + int e) JNull, None)
                  | BodyNever \<Rightarrow> (Never, None))))"

definition write_back :: "string \<Rightarrow> (int \<times> jsval) option \<Rightarrow> cache \<Rightarrow> cache" where
  "write_back key w c = (case w of None \<Rightarrow> c | Some (t, json) \<Rightarrow> setCache key json (Some 20) t c)"

definition sent_of :: "started \<Rightarrow> request list" where
  "sent_of st = (case st of Sent r \<Rightarrow> [r] | _ \<Rightarrow> [])"

text \<open>One call of \<^verbatim>\<open>fetchPredictorMatch\<close> on its own, from the call to its end.\<close>

definition fetchPredictorMatch ::
  "env \<Rightarrow> string \<Rightarrow> bool \<Rightarrow> bool \<Rightarrow> upstream \<Rightarrow> int \<Rightarrow> cache \<Rightarrow> jsval result" where
  "fetchPredictorMatch E matchId detail forwardApiKey up now c =
     (let (st, c1) = start E matchId detail forwardApiKey now c;
          (res, w) = settle st up now
      in \<lparr>outcome = res, cache_after = write_back (cacheKey matchId detail) w c1,
          requests = sent_of st\<rparr>)"

section \<open>The request handlers\<close>

text \<open>
  A reply is a status and a JSON body (\<^verbatim>\<open>res.json\<close> alone replies with 200). A handler
  ends with the reply it sends and the clock reading then, or never replies.
\<close>

record response =
  status :: nat
  body :: jsval

definition error_body :: "string \<Rightarrow> jsval" where
  "error_body msg = JObj [(''error'', JStr msg)]"

text \<open>The first handler registered for \<^verbatim>\<open>GET /api/predictions\<close> (lines 28 to 37).\<close>

definition sample_predictions :: "env \<Rightarrow> int \<Rightarrow> response" where
  "sample_predictions E now =
     (let d = JStr (take 10 (toISOString E now)) in
      \<lparr>status = 200,
       body = JArr
         [JObj [(''id'', JNum 1), (''match'', JStr ''Switzerland vs Sweden''), (''date'', d),
                (''pick'', JStr ''Switzerland to win''), (''market'', JStr ''1''),
                (''rationale'', JStr ''Home advantage''), (''confidence'', JNum 52)],
          JObj [(''id'', JNum 2), (''match'', JStr ''Georgia vs Spain''), (''date'', d),
                (''pick'', JStr ''Over 2.5''), (''market'', JStr ''Over 2.5''),
                (''rationale'', JStr ''Spain attack''), (''confidence'', JNum 65)],
          JObj [(''id'', JNum 3), (''match'', JStr ''Belgium vs Kazakhstan''), (''date'', d),
                (''pick'', JStr ''Belgium -1''), (''market'', JStr ''AH -1''),
                (''rationale'', JStr ''Strong away side''), (''confidence'', JNum 70)]]\<rparr>)"

text \<open>The fallback array of lines 213 to 216; \<open>t\<close> is the clock reading of the reply.\<close>

definition fallback_predictions :: "env \<Rightarrow> int \<Rightarrow> jsval" where
  "fallback_predictions E t =
     JArr
       [JObj [(''id'', JNum 1), (''match'', JStr ''Demo: Switzerland vs Sweden''),
              (''pick'', JStr ''Switzerland to win''), (''date'', JStr (toISOString E t)),
              (''confidence'', JNum (52 / 100))],
        JObj [(''id'', JNum 2), (''match'', JStr ''Demo: Georgia vs Spain''),
              (''pick'', JStr ''Over 2.5''), (''date'', JStr (toISOString E t)),
              (''confidence'', JNum (65 / 100))]]"

text \<open>
  Line 207 calls \<^verbatim>\<open>fetchPredictorMatch\<close> for every id in turn; each call runs to its
  first \<^verbatim>\<open>await\<close> before the next one starts, so the cache lookups happen in the
  order of the ids, on the clock reading of the request.
\<close>

fun start_all :: "env \<Rightarrow> string list \<Rightarrow> int \<Rightarrow> cache \<Rightarrow> started list \<times> cache" where
  "start_all E [] now c = ([], c)"
| "start_all E (i # ids) now c =
     (let (st, c1) = start E i False False now c;
          (sts, c2) = start_all E ids now c1
      in (st # sts, c2))"

text \<open>The calls then settle independently; \<open>ups k\<close> is what the predictor does with call \<open>k\<close>.\<close>

fun settle_all ::
  "started list \<Rightarrow> (nat \<Rightarrow> upstream) \<Rightarrow> nat \<Rightarrow> int \<Rightarrow> (jsval completion \<times> (int \<times> jsval) option) list" where
  "settle_all [] ups k now = []"
| "settle_all (st # sts) ups k now = settle st (ups k) now # settle_all sts ups (Suc k) now"

text \<open>
  \<^verbatim>\<open>Promise.all\<close>: rejects as soon as one promise rejects; otherwise it settles only
  when all have, with the values in the order of the promises.
\<close>

fun throw_times :: "'a completion list \<Rightarrow> int list" where
  "throw_times [] = []"
| "throw_times (Throws t # cs) = t # throw_times cs"
| "throw_times (c # cs) = throw_times cs"

fun returned :: "'a completion list \<Rightarrow> (int \<times> 'a) list option" where
  "returned [] = Some []"
| "returned (Returns t v # cs) = (case returned cs of None \<Rightarrow> None | Some r \<Rightarrow> Some ((t, v) # r))"
| "returned (c # cs) = None"

definition promise_all :: "int \<Rightarrow> 'a completion list \<Rightarrow> ('a list) completion" where
  "promise_all now cs =
     (case throw_times cs of
        t # others \<Rightarrow> Throws (fold min others t)
      | [] \<Rightarrow>
          (case returned cs of
             None \<Rightarrow> Never
           | Some r \<Rightarrow> Returns (fold max (map fst r) now) (map snd r)))"

text \<open>The cache writes of the calls, applied in the order in which they happen.\<close>

fun writes_of :: "string list \<Rightarrow> (jsval completion \<times> (int \<times> jsval) option) list \<Rightarrow> (int \<times> string \<times> jsval) list" where
  "writes_of (i # ids) ((r, Some (t, json)) # rs) = (t, cacheKey i False, json) # writes_of ids rs"
| "writes_of (i # ids) ((r, None) # rs) = writes_of ids rs"
| "writes_of ids rs = []"

definition apply_writes :: "(int \<times> string \<times> jsval) list \<Rightarrow> cache \<Rightarrow> cache" where
  "apply_writes ws c = fold (\<lambda>(t, key, json) c. setCache key json (Some 20) t c) (sort_key fst ws) c"

text \<open>
  The second handler registered for \<^verbatim>\<open>GET /api/predictions\<close> (lines 204 to 223). The
  cache it leaves is the one after all calls in flight have settled.
\<close>

definition aggregated_predictions :: "env \<Rightarrow> (nat \<Rightarrow> upstream) \<Rightarrow> int \<Rightarrow> cache \<Rightarrow> response result" where
  "aggregated_predictions E ups now c =
     (let matchIds = PREDICTOR_MATCH_IDS E;
          (sts, c1) = start_all E matchIds now c;
          settled = settle_all sts ups 0 now
      in \<lparr>outcome =
            (case promise_all now (map fst settled) of
               Throws t \<Rightarrow>
                 Returns t \<lparr>status = 500, body = error_body ''Could not fetch predictions''\<rparr>
             | Never \<Rightarrow> Never
             | Returns t results \<Rightarrow>
                 (let cleaned = filter (\<lambda>r. r \<noteq> JNull) results
                  in if length cleaned = 0
                     then Returns t \<lparr>status = 200, body = fallback_predictions E t\<rparr>
                     else Returns t \<lparr>status = 200, body = JArr cleaned\<rparr>)),
          cache_after = apply_writes (writes_of matchIds settled) c1,
          requests = concat (map sent_of sts)\<rparr>)"

text \<open>
  A query parameter as the query parser of Express delivers it: a string, an array for a
  repeated name, or an object for bracketed names.
\<close>

datatype qval =
    QStr string
  | QArr "string list"
  | QObj "(string \<times> string) list"

text \<open>
  Line 234, \<^verbatim>\<open>(req.query.detail || 'false').toLowerCase() === 'true'\<close>. An array or an
  object is truthy and has no \<^verbatim>\<open>toLowerCase\<close>: the call throws a \<^verbatim>\<open>TypeError\<close>,
  which is \<open>None\<close> here.
\<close>

definition parse_detail :: "qval option \<Rightarrow> bool option" where
  "parse_detail q =
     (let x = (case q of
                 None \<Rightarrow> QStr ''false''
               | Some (QStr s) \<Rightarrow> if s = [] then QStr ''false'' else QStr s
               | Some other \<Rightarrow> other)
      in case x of QStr s \<Rightarrow> Some (toLowerCase s = ''true'') | _ \<Rightarrow> None)"

text \<open>\<^verbatim>\<open>verifyJWT\<close> (lines 154 to 162): the payload, or \<^verbatim>\<open>null\<close>.\<close>

definition verifyJWT :: "env \<Rightarrow> string \<Rightarrow> jsval" where
  "verifyJWT E token =
     (if token = [] then JNull
      else (case jwt_verify E (strip_bearer token) (env_or E ''JWT_SECRET'' ''dev-secret'') of
              None \<Rightarrow> JNull
            | Some payload \<Rightarrow> payload))"

text \<open>
  Lines 236 to 249: the gate of the detailed view. \<open>Inl\<close> is the reply of an early
  \<^verbatim>\<open>return\<close>, \<open>Inr\<close> the value of \<^verbatim>\<open>forwardApiKey\<close> with which the handler goes on.
\<close>

definition gate :: "env \<Rightarrow> bool \<Rightarrow> string option \<Rightarrow> response + bool" where
  "gate E detail authorization =
     (if detail then
        (let authHeader = (case authorization of None \<Rightarrow> [] | Some h \<Rightarrow> h);
             payload = verifyJWT E authHeader
         in if \<not> truthy payload
            then Inl \<lparr>status = 401,
                      body = error_body ''Missing or invalid token for detailed analysis''\<rparr>
            else if \<not> truthy_opt (get_prop payload ''subscribed'')
            then Inl \<lparr>status = 403,
                      body = JObj [(''teaser'',
                        JStr ''Full analysis available for VIPs. Start a trial for R199/month.'')]\<rparr>
            else Inr True)
      else Inr False)"

text \<open>Lines 251 to 255, and the \<^verbatim>\<open>catch\<close> of line 256 for a throwing call.\<close>

definition fetch_and_reply ::
  "env \<Rightarrow> string \<Rightarrow> bool \<Rightarrow> bool \<Rightarrow> upstream \<Rightarrow> int \<Rightarrow> cache \<Rightarrow> response result" where
  "fetch_and_reply E matchId detail forwardApiKey up now c =
     (let r = fetchPredictorMatch E matchId detail forwardApiKey up now c
      in \<lparr>outcome =
            (case outcome r of
               Throws t \<Rightarrow> Returns t \<lparr>status = 500, body = error_body ''Server error''\<rparr>
             | Never \<Rightarrow> Never
             | Returns t predictorResp \<Rightarrow>
                 if \<not> truthy predictorResp
                 then Returns t \<lparr>status = 502, body = error_body ''Prediction service unavailable''\<rparr>
                 else Returns t \<lparr>status = 200, body = predictorResp\<rparr>),
          cache_after = cache_after r,
          requests = requests r\<rparr>)"

text \<open>The handler of \<^verbatim>\<open>GET /api/prediction/:matchId\<close> (lines 231 to 260).\<close>

definition single_prediction ::
  "env \<Rightarrow> string \<Rightarrow> qval option \<Rightarrow> string option \<Rightarrow> upstream \<Rightarrow> int \<Rightarrow> cache \<Rightarrow> response result" where
  "single_prediction E matchId detail_query authorization up now c =
     (case parse_detail detail_query of
        None \<Rightarrow>
          \<lparr>outcome = Returns now \<lparr>status = 500, body = error_body ''Server error''\<rparr>,
           cache_after = c, requests = []\<rparr>
      | Some detail \<Rightarrow>
          (case gate E detail authorization of
             Inl reply \<Rightarrow> \<lparr>outcome = Returns now reply, cache_after = c, requests = []\<rparr>
           | Inr forwardApiKey \<Rightarrow> fetch_and_reply E matchId detail forwardApiKey up now c))"

section \<open>Routing\<close>

text \<open>
  The \<^verbatim>\<open>GET\<close> routes of the application in the order of their registration (lines 28,
  204 and 231). Express gives a request to the first route whose path matches; a later
  route is tried only when the handler calls \<^verbatim>\<open>next\<close>, which none of these does. A
  path is the list of its decoded segments, in the letter case of the routes. The
  \<^verbatim>\<open>POST\<close> routes of lines 57 and 102 match no \<^verbatim>\<open>GET\<close> request and are left out.
\<close>

datatype seg = Lit string | Param string

datatype handler = SamplePredictions | AggregatedPredictions | SinglePrediction

definition get_routes :: "(seg list \<times> handler) list" where
  "get_routes =
     [([Lit ''api'', Lit ''predictions''], SamplePredictions),
      ([Lit ''api'', Lit ''predictions''], AggregatedPredictions),
      ([Lit ''api'', Lit ''prediction'', Param ''matchId''], SinglePrediction)]"

fun match_path :: "seg list \<Rightarrow> string list \<Rightarrow> (string \<times> string) list option" where
  "match_path [] [] = Some []"
| "match_path (Lit l # ps) (s # ss) = (if l = s then match_path ps ss else None)"
| "match_path (Param n # ps) (s # ss) =
     (if s = [] then None
      else (case match_path ps ss of None \<Rightarrow> None | Some params \<Rightarrow> Some ((n, s) # params)))"
| "match_path ps ss = None"

fun dispatch :: "(seg list \<times> handler) list \<Rightarrow> string list \<Rightarrow> (handler \<times> (string \<times> string) list) option" where
  "dispatch [] path = None"
| "dispatch ((pat, h) # routes) path =
     (case match_path pat path of
        Some params \<Rightarrow> Some (h, params)
      | None \<Rightarrow> dispatch routes path)"

record http_get =
  path :: "string list"
  query :: "string \<rightharpoonup> qval"
  authorization :: "string option"

text \<open>
  A \<^verbatim>\<open>GET\<close> request served by the application. A path that no route matches gets the
  404 of Express, whose body is not modelled.
\<close>

definition serve_get :: "env \<Rightarrow> http_get \<Rightarrow> (nat \<Rightarrow> upstream) \<Rightarrow> int \<Rightarrow> cache \<Rightarrow> response result" where
  "serve_get E req ups now c =
     (case dispatch get_routes (path req) of
        None \<Rightarrow> \<lparr>outcome = Returns now \<lparr>status = 404, body = JNull\<rparr>, cache_after = c, requests = []\<rparr>
      | Some (SamplePredictions, params) \<Rightarrow>
          \<lparr>outcome = Returns now (sample_predictions E now), cache_after = c, requests = []\<rparr>
      | Some (AggregatedPredictions, params) \<Rightarrow> aggregated_predictions E ups now c
      | Some (SinglePrediction, params) \<Rightarrow>
          (case map_of params ''matchId'' of
             None \<Rightarrow> \<lparr>outcome = Returns now \<lparr>status = 404, body = JNull\<rparr>, cache_after = c, requests = []\<rparr>
           | Some matchId \<Rightarrow>
               single_prediction E matchId (query req ''detail'') (authorization req) (ups 0) now c))"

section \<open>The specification's reading of the detail flag\<close>

text \<open>
  The specification's words for line 234: the parameter compares equal to \<^verbatim>\<open>"true"\<close>
  case-insensitively. Written out letter by letter, to be compared with \<open>parse_detail\<close>.
\<close>

definition equals_true_ignoring_case :: "string \<Rightarrow> bool" where
  "equals_true_ignoring_case s =
     (case s of
        [a, b, c, d] \<Rightarrow>
          (a = CHR ''t'' \<or> a = CHR ''T'') \<and> (b = CHR ''r'' \<or> b = CHR ''R'')
          \<and> (c = CHR ''u'' \<or> c = CHR ''U'') \<and> (d = CHR ''e'' \<or> d = CHR ''E'')
      | _ \<Rightarrow> False)"

section \<open>Concrete inputs\<close>

text \<open>
  An outside world for the examples: environment variables from a list, every URL
  accepted, a token verifier that knows two tokens under the default secret, and a fixed
  rendering of the clock.
\<close>

definition demo_jwt :: "string \<Rightarrow> string \<Rightarrow> jsval option" where
  "demo_jwt token secret =
     (if secret \<noteq> ''dev-secret'' then None
      else if token = ''vip.token'' then Some (JObj [(''subscribed'', JBool True)])
      else if token = ''free.token'' then Some (JObj [(''subscribed'', JBool False)])
      else None)"

definition demo_env :: "(string \<times> string) list \<Rightarrow> env" where
  "demo_env vars =
     \<lparr>process_env = map_of vars, valid_url = (\<lambda>u. True), jwt_verify = demo_jwt,
      toISOString = (\<lambda>t. ''2025-11-15T12:00:00.000Z'')\<rparr>"

text \<open>The predictor of the first end-to-end scenario: the first call is answered, the second never.\<close>

definition home_pick :: jsval where
  "home_pick = JObj [(''pick'', JStr ''Home'')]"

definition away_pick :: jsval where
  "away_pick = JObj [(''pick'', JStr ''Away''), (''confidence'', JNum (61 / 100))]"

definition scenario_ups :: "nat \<Rightarrow> upstream" where
  "scenario_ups k = (if k = 0 then Response 10 True (BodyJson 5 home_pick) else NoResponse)"

definition expired_cache :: cache where
  "expired_cache = [cacheKey ''A'' False \<mapsto> \<lparr>ts = 0, ttlSec = 20, val = home_pick\<rparr>]"

section \<open>Auxiliary facts\<close>

subsection \<open>The cache\<close>

lemma getCache_present:
  "c k = Some e \<Longrightarrow>
     getCache k now c =
       (if of_int (now - ts e) / 1000 \<le> ttlSec e then (val e, c) else (JNull, c(k := None)))"
  by (simp add: getCache_def not_le)

lemma getCache_other: "k' \<noteq> k \<Longrightarrow> snd (getCache k now c) k' = c k'"
  by (simp add: getCache_def split: option.splits)

lemma getCache_no_new: "snd (getCache k now c) k' = Some e \<Longrightarrow> c k' = Some e"
  by (auto simp: getCache_def split: option.splits if_splits)

lemma getCache_snd_cases: "snd (getCache k now c) = c \<or> snd (getCache k now c) = c(k := None)"
  by (simp add: getCache_def split: option.splits)

lemma getCache_hit_keeps: "truthy (fst (getCache k now c)) \<Longrightarrow> snd (getCache k now c) = c"
  by (auto simp: getCache_def split: option.splits if_splits)

lemma getCache_fst_other:
  "k' \<noteq> k \<Longrightarrow> fst (getCache k' now' (setCache k v ttl now c)) = fst (getCache k' now' c)"
  by (simp add: getCache_def setCache_def split: option.splits)

lemma getCache_fst_cong: "c1 k = c2 k \<Longrightarrow> fst (getCache k now c1) = fst (getCache k now c2)"
  by (simp add: getCache_def split: option.splits)

lemma getCache_after_purge:
  assumes "now \<le> now'"
  shows "fst (getCache k now' (snd (getCache key now c))) = fst (getCache k now' c)"
proof (cases "k = key")
  case False
  then have "snd (getCache key now c) k = c k" by (rule getCache_other)
  then show ?thesis by (rule getCache_fst_cong)
next
  case True
  show ?thesis
  proof (cases "c key")
    case None
    then show ?thesis using True by (simp add: getCache_def)
  next
    case (Some en)
    show ?thesis
    proof (cases "of_int (now - ts en) / 1000 > ttlSec en")
      case False
      then show ?thesis using Some True by (simp add: getCache_def)
    next
      case exp: True
      have "(of_int (now - ts en) :: rat) / 1000 \<le> of_int (now' - ts en) / 1000"
        using assms by (simp add: divide_right_mono)
      then have "of_int (now' - ts en) / 1000 > ttlSec en" using exp by simp
      then show ?thesis using Some True exp by (simp add: getCache_def)
    qed
  qed
qed

lemma cacheKey_inj: "(cacheKey m1 d1 = cacheKey m2 d2) = (m1 = m2 \<and> d1 = d2)"
  by (auto simp: cacheKey_def dest!: arg_cong[where f=rev])

subsection \<open>The two halves of a call\<close>

lemma start_cache: "snd (start E m d f now c) = snd (getCache (cacheKey m d) now c)"
  by (simp add: start_def Let_def split: prod.splits)

lemma start_sent:
  "(\<exists>r. fst (start E m d f now c) = Sent r) =
     (\<not> truthy (fst (getCache (cacheKey m d) now c))
      \<and> valid_url E (strip_slash (PREDICTOR_URL E) @ ''/predict/'' @ encodeURIComponent m))"
  by (auto simp: start_def Let_def split: prod.splits)

lemma sent_hdrs:
  "fst (start E m d f now c) = Sent r \<Longrightarrow>
     hdrs r = build_headers E f \<and> detail_param r = d
     \<and> target r = strip_slash (PREDICTOR_URL E) @ ''/predict/'' @ encodeURIComponent m"
  by (auto simp: start_def Let_def split: prod.splits if_splits)

lemma start_hit:
  "truthy (fst (getCache (cacheKey m d) now c)) \<Longrightarrow>
     fst (start E m d f now c) = Hit (fst (getCache (cacheKey m d) now c))"
  by (simp add: start_def Let_def case_prod_beta)

lemma start_miss:
  "\<not> truthy (fst (getCache (cacheKey m d) now c)) \<Longrightarrow>
   valid_url E (strip_slash (PREDICTOR_URL E) @ ''/predict/'' @ encodeURIComponent m) \<Longrightarrow>
     fst (start E m d f now c)
       = Sent \<lparr>target = strip_slash (PREDICTOR_URL E) @ ''/predict/'' @ encodeURIComponent m,
               detail_param = d, hdrs = build_headers E f\<rparr>"
  by (simp add: start_def Let_def case_prod_beta)

lemma requests_fetch:
  "requests (fetchPredictorMatch E m d f up now c) = sent_of (fst (start E m d f now c))"
  by (simp add: fetchPredictorMatch_def Let_def split: prod.splits)

lemma outcome_fetch:
  "outcome (fetchPredictorMatch E m d f up now c) = fst (settle (fst (start E m d f now c)) up now)"
  by (simp add: fetchPredictorMatch_def Let_def split: prod.splits)

lemma cache_fetch:
  "cache_after (fetchPredictorMatch E m d f up now c) =
     write_back (cacheKey m d) (snd (settle (fst (start E m d f now c)) up now))
       (snd (getCache (cacheKey m d) now c))"
  by (simp add: fetchPredictorMatch_def Let_def case_prod_beta start_cache)

lemma request_sent:
  "requests (fetchPredictorMatch E m d f up now c) \<noteq> [] \<Longrightarrow>
     \<exists>r. fst (start E m d f now c) = Sent r"
  by (auto simp: requests_fetch sent_of_def split: started.splits)

lemma request_headers:
  "r \<in> set (requests (fetchPredictorMatch E m d f up now c)) \<Longrightarrow> hdrs r = build_headers E f"
  by (auto simp: requests_fetch sent_of_def sent_hdrs split: started.splits)

lemma requests_detail:
  "r \<in> set (requests (fetchPredictorMatch E m d f up now c)) \<Longrightarrow> detail_param r = d"
  by (auto simp: requests_fetch sent_of_def sent_hdrs split: started.splits)

lemma settle_write:
  "snd (settle st up now) = Some (t, v) \<Longrightarrow>
     (\<exists>r d e. st = Sent r \<and> up = Response d True (BodyJson e v) \<and> d < 5000
        \<and> t = now + int d + int e)"
  by (auto simp: settle_def split: started.splits upstream.splits body_read.splits if_splits)

lemma fetch_cache_other:
  "k' \<noteq> cacheKey m d \<Longrightarrow> cache_after (fetchPredictorMatch E m d f up now c) k' = c k'"
  by (simp add: cache_fetch write_back_def setCache_def getCache_other split: option.splits)

subsection \<open>Letter case and the Bearer prefix\<close>

lemma lower_char_eq:
  assumes "97 \<le> (of_char x :: nat)" "(of_char x :: nat) \<le> 122"
  shows "(lower_char c = x) = (c = x \<or> (of_char c :: nat) + 32 = of_char x)"
proof (cases "65 \<le> (of_char c :: nat) \<and> (of_char c :: nat) \<le> 90")
  case True
  then have "lower_char c = char_of ((of_char c :: nat) + 32)" by (simp add: lower_char_def)
  moreover have "(char_of ((of_char c :: nat) + 32) = x) = ((of_char c :: nat) + 32 = of_char x)"
    using True by (auto simp: char_of_eq_iff take_bit_eq_mod)
  moreover have "c \<noteq> x" using True assms by auto
  ultimately show ?thesis by simp
next
  case False
  then have "lower_char c = c" by (auto simp: lower_char_def)
  moreover have "(of_char c :: nat) + 32 \<noteq> of_char x" using False assms by auto
  ultimately show ?thesis by simp
qed

lemma of_char_is: "(of_char d :: nat) = n \<Longrightarrow> ((of_char c :: nat) = n) = (c = d)"
  by auto

lemma lower_t: "(lower_char c = CHR ''t'') = (c = CHR ''t'' \<or> c = CHR ''T'')"
  using lower_char_eq [of "CHR ''t''" c] of_char_is [of "CHR ''T''" 84 c] by simp

lemma lower_r: "(lower_char c = CHR ''r'') = (c = CHR ''r'' \<or> c = CHR ''R'')"
  using lower_char_eq [of "CHR ''r''" c] of_char_is [of "CHR ''R''" 82 c] by simp

lemma lower_u: "(lower_char c = CHR ''u'') = (c = CHR ''u'' \<or> c = CHR ''U'')"
  using lower_char_eq [of "CHR ''u''" c] of_char_is [of "CHR ''U''" 85 c] by simp

lemma lower_e: "(lower_char c = CHR ''e'') = (c = CHR ''e'' \<or> c = CHR ''E'')"
  using lower_char_eq [of "CHR ''e''" c] of_char_is [of "CHR ''E''" 69 c] by simp

lemma toLowerCase_true: "(toLowerCase s = ''true'') = equals_true_ignoring_case s"
  by (auto simp: toLowerCase_def equals_true_ignoring_case_def lower_t lower_r lower_u lower_e
           split: list.splits)

lemma strip_bearer_prefix:
  assumes "toLowerCase w = ''bearer''" "sp \<noteq> []" "\<forall>ch\<in>set sp. is_space ch"
    "tok \<noteq> []" "\<not> is_space (hd tok)"
  shows "strip_bearer (w @ sp @ tok) = tok"
proof -
  have "length (toLowerCase w) = 6" using assms(1) by simp
  then have len: "length w = 6" by (simp add: toLowerCase_def)
  have "hd (sp @ tok) = hd sp" using assms(2) by simp
  then have "is_space (hd (sp @ tok))" using assms(2,3) by simp
  moreover have "dropWhile is_space (sp @ tok) = tok"
    using assms(3,4,5) by (cases tok) (simp_all add: dropWhile_append2)
  ultimately show ?thesis using len assms(1,2) by (simp add: strip_bearer_def)
qed

lemma strip_bearer_plain:
  assumes "\<forall>ch\<in>set tok. \<not> is_space ch"
  shows "strip_bearer tok = tok"
proof -
  have "\<not> (drop 6 tok \<noteq> [] \<and> is_space (hd (drop 6 tok)))"
  proof
    assume h: "drop 6 tok \<noteq> [] \<and> is_space (hd (drop 6 tok))"
    then have "hd (drop 6 tok) \<in> set tok" by (meson hd_in_set in_set_dropD)
    with h assms show False by blast
  qed
  then show ?thesis by (auto simp: strip_bearer_def Let_def)
qed

lemma verifyJWT_bearer:
  assumes "toLowerCase w = ''bearer''" "sp \<noteq> []" "\<forall>ch\<in>set sp. is_space ch"
    "tok \<noteq> []" "\<forall>ch\<in>set tok. \<not> is_space ch"
  shows "verifyJWT E (w @ sp @ tok) = verifyJWT E tok"
proof -
  have "\<not> is_space (hd tok)" using assms(4,5) by simp
  then have "strip_bearer (w @ sp @ tok) = tok" using assms by (simp add: strip_bearer_prefix)
  moreover have "strip_bearer tok = tok" using assms(5) by (rule strip_bearer_plain)
  ultimately show ?thesis using assms(2,4) by (simp add: verifyJWT_def)
qed

subsection \<open>The single-match handler\<close>

lemma parse_detail_None: "parse_detail None = Some False"
  by (simp add: parse_detail_def toLowerCase_def lower_char_def)

lemma parse_detail_QStr: "parse_detail (Some (QStr s)) = Some (equals_true_ignoring_case s)"
proof (cases "s = []")
  case True
  then show ?thesis
    by (simp add: parse_detail_def toLowerCase_def lower_char_def equals_true_ignoring_case_def)
next
  case False
  then show ?thesis by (simp add: parse_detail_def toLowerCase_true)
qed

lemma single_gate:
  "parse_detail q = Some detail \<Longrightarrow>
     single_prediction E matchId q auth up now c =
       (case gate E detail auth of
          Inl reply \<Rightarrow> \<lparr>outcome = Returns now reply, cache_after = c, requests = []\<rparr>
        | Inr forwardApiKey \<Rightarrow> fetch_and_reply E matchId detail forwardApiKey up now c)"
  by (simp add: single_prediction_def)

lemma gate_public: "gate E False auth = Inr False"
  by (simp add: gate_def)

lemma gate_detail:
  "gate E True auth =
     (let payload = verifyJWT E (case auth of None \<Rightarrow> [] | Some h \<Rightarrow> h)
      in if \<not> truthy payload
         then Inl \<lparr>status = 401, body = error_body ''Missing or invalid token for detailed analysis''\<rparr>
         else if \<not> truthy_opt (get_prop payload ''subscribed'')
         then Inl \<lparr>status = 403,
                   body = JObj [(''teaser'',
                     JStr ''Full analysis available for VIPs. Start a trial for R199/month.'')]\<rparr>
         else Inr True)"
  by (simp add: gate_def)

lemma get_prop_truthy: "get_prop p k = Some v \<Longrightarrow> truthy p"
  by (cases p) simp_all

lemma requests_reply:
  "requests (fetch_and_reply E m d f up now c) = requests (fetchPredictorMatch E m d f up now c)"
  by (simp add: fetch_and_reply_def Let_def)

lemma outcome_reply:
  "outcome (fetch_and_reply E m d f up now c) =
     (case fst (settle (fst (start E m d f now c)) up now) of
        Throws t \<Rightarrow> Returns t \<lparr>status = 500, body = error_body ''Server error''\<rparr>
      | Never \<Rightarrow> Never
      | Returns t v \<Rightarrow>
          if \<not> truthy v
          then Returns t \<lparr>status = 502, body = error_body ''Prediction service unavailable''\<rparr>
          else Returns t \<lparr>status = 200, body = v\<rparr>)"
  by (simp add: fetch_and_reply_def Let_def outcome_fetch)

text \<open>The route of the single-match handler is reached: no earlier route matches its path.\<close>

lemma prediction_route:
  "matchId \<noteq> [] \<Longrightarrow>
     serve_get E \<lparr>path = [''api'', ''prediction'', matchId], query = qy, authorization = a\<rparr> ups now c
       = single_prediction E matchId (qy ''detail'') a (ups 0) now c"
  by (simp add: serve_get_def get_routes_def)

subsection \<open>The concrete inputs\<close>

lemma demo_url: "PREDICTOR_URL (demo_env []) = ''http://localhost:5000''"
  by (simp add: PREDICTOR_URL_def env_or_def demo_env_def)

lemma demo_valid: "valid_url (demo_env vars) u"
  by (simp add: demo_env_def)

lemma demo_no_key: "PREDICTOR_API_KEY (demo_env []) = []"
  by (simp add: PREDICTOR_API_KEY_def env_or_def demo_env_def)

lemma demo_ids: "PREDICTOR_MATCH_IDS (demo_env [(''PREDICTOR_MATCH_IDS'', ''m1,m2'')]) = [''m1'', ''m2'']"
  by (simp add: PREDICTOR_MATCH_IDS_def env_or_def demo_env_def)

lemma demo_key: "PREDICTOR_API_KEY (demo_env [(''PREDICTOR_API_KEY'', ''s3cret'')]) = ''s3cret''"
  by (simp add: PREDICTOR_API_KEY_def env_or_def demo_env_def)

lemma demo_key_url: "PREDICTOR_URL (demo_env [(''PREDICTOR_API_KEY'', ''s3cret'')]) = ''http://localhost:5000''"
  by (simp add: PREDICTOR_URL_def env_or_def demo_env_def)

lemma home_pick_truthy: "truthy home_pick"
  by (simp add: home_pick_def)

lemma fetch_public_m1:
  "fetchPredictorMatch (demo_env []) ''m1'' False False (scenario_ups 0) 0 Map.empty
     = \<lparr>outcome = Returns 15 home_pick,
        cache_after = [cacheKey ''m1'' False \<mapsto> \<lparr>ts = 15, ttlSec = 20, val = home_pick\<rparr>],
        requests = [\<lparr>target = ''http://localhost:5000/predict/m1'', detail_param = False,
                     hdrs = [(''Accept'', ''application/json'')]\<rparr>]\<rparr>"
  by (simp add: fetchPredictorMatch_def start_def settle_def getCache_def setCache_def
        write_back_def sent_of_def scenario_ups_def build_headers_def demo_no_key demo_url demo_valid
        strip_slash_def encodeURIComponent_def encode_char_def unreserved_def Let_def)

lemma fetch_vip_m1:
  "fetchPredictorMatch (demo_env [(''PREDICTOR_API_KEY'', ''s3cret'')]) ''m1'' True True
       (scenario_ups 0) 0 Map.empty
     = \<lparr>outcome = Returns 15 home_pick,
        cache_after = [cacheKey ''m1'' True \<mapsto> \<lparr>ts = 15, ttlSec = 20, val = home_pick\<rparr>],
        requests = [\<lparr>target = ''http://localhost:5000/predict/m1'', detail_param = True,
                     hdrs = [(''Accept'', ''application/json''), (''x-api-key'', ''s3cret'')]\<rparr>]\<rparr>"
proof -
  let ?K = "demo_env [(''PREDICTOR_API_KEY'', ''s3cret'')]"
  have key: "PREDICTOR_API_KEY ?K = ''s3cret''"
    by (simp add: PREDICTOR_API_KEY_def env_or_def demo_env_def)
  have url: "PREDICTOR_URL ?K = ''http://localhost:5000''"
    by (simp add: PREDICTOR_URL_def env_or_def demo_env_def)
  show ?thesis
    by (simp add: fetchPredictorMatch_def start_def settle_def getCache_def setCache_def
          write_back_def sent_of_def scenario_ups_def build_headers_def key url demo_valid
          strip_slash_def encodeURIComponent_def encode_char_def unreserved_def Let_def)
qed

lemma predictions_dispatch:
  "dispatch get_routes [''api'', ''predictions''] = Some (SamplePredictions, [])"
  by (simp add: get_routes_def)

section \<open>The cache store\<close>

text \<open>
  Claim C3. A value stored with a time to live of \<open>t\<close> seconds (\<open>t\<close> not negative) is
  returned by a lookup made at the same clock reading, and by every lookup made while its
  age is at most \<open>t\<close> seconds; a lookup made once more than \<open>t\<close> seconds have passed
  returns \<^verbatim>\<open>null\<close> and leaves a store without the key. For any stored entry, the
  lookup returns its value and keeps the store exactly when the entry's age does not exceed
  its time to live, and otherwise returns \<^verbatim>\<open>null\<close> and deletes the entry: expiry is
  applied by the lookup itself.
\<close>

theorem cache_set_get_expiry:
  assumes "0 \<le> t"
  shows "getCache k now (setCache k v (Some t) now c) = (v, setCache k v (Some t) now c)
    \<and> (of_int (now' - now) / 1000 \<le> t \<longrightarrow>
           fst (getCache k now' (setCache k v (Some t) now c)) = v)
    \<and> (of_int (now' - now) / 1000 > t \<longrightarrow>
           getCache k now' (setCache k v (Some t) now c) = (JNull, c(k := None)))
    \<and> (c k = Some e \<longrightarrow>
           (getCache k now' c = (val e, c)) = (of_int (now' - ts e) / 1000 \<le> ttlSec e)
           \<and> (\<not> of_int (now' - ts e) / 1000 \<le> ttlSec e \<longrightarrow>
                 getCache k now' c = (JNull, c(k := None))))"
proof -
  have a: "getCache k now (setCache k v (Some t) now c) = (v, setCache k v (Some t) now c)"
    using assms by (simp add: getCache_def setCache_def)
  have b: "of_int (now' - now) / 1000 \<le> t \<longrightarrow>
          fst (getCache k now' (setCache k v (Some t) now c)) = v"
    by (simp add: getCache_def setCache_def)
  have d: "of_int (now' - now) / 1000 > t \<longrightarrow>
           getCache k now' (setCache k v (Some t) now c) = (JNull, c(k := None))"
    by (simp add: getCache_def setCache_def)
  have e: "c k = Some e \<longrightarrow>
          (getCache k now' c = (val e, c)) = (of_int (now' - ts e) / 1000 \<le> ttlSec e)"
  proof
    assume h: "c k = Some e"
    have "c(k := None) \<noteq> c" using h by (metis fun_upd_same option.distinct(1))
    then show "(getCache k now' c = (val e, c)) = (of_int (now' - ts e) / 1000 \<le> ttlSec e)"
      using h by (auto simp: getCache_present)
  qed
  have f: "c k = Some e \<longrightarrow> (\<not> of_int (now' - ts e) / 1000 \<le> ttlSec e \<longrightarrow>
          getCache k now' c = (JNull, c(k := None)))"
    by (simp add: getCache_present)
  from a b d e f show ?thesis by blast
qed

theorem cache_set_get_expiry_witness:
  "getCache ''k'' 1000 (setCache ''k'' (JStr ''v'') (Some 20) 1000 Map.empty)
     = (JStr ''v'', setCache ''k'' (JStr ''v'') (Some 20) 1000 Map.empty)
   \<and> fst (getCache ''k'' 21000 (setCache ''k'' (JStr ''v'') (Some 20) 1000 Map.empty)) = JStr ''v''
   \<and> getCache ''k'' 21001 (setCache ''k'' (JStr ''v'') (Some 20) 1000 Map.empty)
       = (JNull, Map.empty)"
  using cache_set_get_expiry [of 20 "''k''" 1000 "JStr ''v''" Map.empty 21000]
        cache_set_get_expiry [of 20 "''k''" 1000 "JStr ''v''" Map.empty 21001]
  by simp

text \<open>
  Claim C9. The cache key is an injective function of the match id and the detail flag: two
  keys are equal exactly when both fields are equal. Hence an entry stored for one pair is
  not seen by a lookup for another pair, and a call of \<^verbatim>\<open>fetchPredictorMatch\<close> for one
  pair leaves the entry of every other pair as it was.
\<close>

theorem cacheKey_separation:
  "(cacheKey m1 d1 = cacheKey m2 d2) = (m1 = m2 \<and> d1 = d2)
   \<and> (\<not> (m1 = m2 \<and> d1 = d2) \<longrightarrow>
        fst (getCache (cacheKey m2 d2) now' (setCache (cacheKey m1 d1) v ttl now c))
          = fst (getCache (cacheKey m2 d2) now' c)
        \<and> cache_after (fetchPredictorMatch E m1 d1 f up now c) (cacheKey m2 d2) = c (cacheKey m2 d2))"
proof (intro conjI impI)
  show "(cacheKey m1 d1 = cacheKey m2 d2) = (m1 = m2 \<and> d1 = d2)" by (rule cacheKey_inj)
next
  assume "\<not> (m1 = m2 \<and> d1 = d2)"
  then have ne: "cacheKey m2 d2 \<noteq> cacheKey m1 d1" by (simp add: cacheKey_inj eq_commute)
  show "fst (getCache (cacheKey m2 d2) now' (setCache (cacheKey m1 d1) v ttl now c))
          = fst (getCache (cacheKey m2 d2) now' c)"
    using ne by (rule getCache_fst_other)
  show "cache_after (fetchPredictorMatch E m1 d1 f up now c) (cacheKey m2 d2) = c (cacheKey m2 d2)"
    using ne by (rule fetch_cache_other)
qed

theorem cacheKey_separation_witness:
  "cacheKey ''A'' False \<noteq> cacheKey ''A'' True
   \<and> cacheKey ''A'' False \<noteq> cacheKey ''B'' False
   \<and> fst (getCache (cacheKey ''A'' True) 5 (setCache (cacheKey ''A'' False) home_pick (Some 20) 0 Map.empty))
       = JNull
   \<and> fst (getCache (cacheKey ''B'' False) 5 (setCache (cacheKey ''A'' False) home_pick (Some 20) 0 Map.empty))
       = JNull
   \<and> fst (getCache (cacheKey ''A'' False) 5 (setCache (cacheKey ''A'' False) home_pick (Some 20) 0 Map.empty))
       = home_pick"
proof -
  note t = cacheKey_separation [where ?m1.0 = "''A''" and ?d1.0 = False and ?m2.0 = "''A''" and ?d2.0 = True
      and now' = 5 and v = home_pick and ttl = "Some 20" and now = 0 and c = Map.empty]
  note b = cacheKey_separation [where ?m1.0 = "''A''" and ?d1.0 = False and ?m2.0 = "''B''" and ?d2.0 = False
      and now' = 5 and v = home_pick and ttl = "Some 20" and now = 0 and c = Map.empty]
  have k1: "cacheKey ''A'' False \<noteq> cacheKey ''A'' True" using t by simp
  have k2: "cacheKey ''A'' False \<noteq> cacheKey ''B'' False" using b by simp
  have e: "fst (getCache k 5 Map.empty) = JNull" for k by (simp add: getCache_def)
  have g1: "fst (getCache (cacheKey ''A'' True) 5 (setCache (cacheKey ''A'' False) home_pick (Some 20) 0 Map.empty))
       = JNull"
    using t e by simp
  have g2: "fst (getCache (cacheKey ''B'' False) 5 (setCache (cacheKey ''A'' False) home_pick (Some 20) 0 Map.empty))
       = JNull"
    using b e by simp
  have g3: "fst (getCache (cacheKey ''A'' False) 5 (setCache (cacheKey ''A'' False) home_pick (Some 20) 0 Map.empty))
       = home_pick"
    by (simp add: getCache_def setCache_def)
  from k1 k2 g1 g2 g3 show ?thesis by blast
qed

section \<open>The upstream client\<close>

text \<open>
  Claim C6. Every request that \<^verbatim>\<open>fetchPredictorMatch\<close> sends carries the header
  \<^verbatim>\<open>Accept: application/json\<close>, and it carries the header \<^verbatim>\<open>x-api-key\<close> exactly when
  \<^verbatim>\<open>forwardApiKey\<close> is true and the configured key is not empty; the header then holds the
  configured key.
\<close>

theorem fetch_headers:
  assumes "r \<in> set (requests (fetchPredictorMatch E m d forwardApiKey up now c))"
  shows "map_of (hdrs r) ''Accept'' = Some ''application/json''
       \<and> (map_of (hdrs r) ''x-api-key'' \<noteq> None) = (forwardApiKey \<and> PREDICTOR_API_KEY E \<noteq> [])
       \<and> (map_of (hdrs r) ''x-api-key'' \<noteq> None \<longrightarrow>
            map_of (hdrs r) ''x-api-key'' = Some (PREDICTOR_API_KEY E))"
proof -
  from assms have "hdrs r = build_headers E forwardApiKey" by (rule request_headers)
  then show ?thesis by (simp add: build_headers_def)
qed

theorem fetch_headers_witness:
  "requests (fetchPredictorMatch (demo_env [(''PREDICTOR_API_KEY'', ''s3cret'')]) ''m1'' True True
       (scenario_ups 0) 0 Map.empty)
     = [\<lparr>target = ''http://localhost:5000/predict/m1'', detail_param = True,
         hdrs = [(''Accept'', ''application/json''), (''x-api-key'', ''s3cret'')]\<rparr>]
   \<and> map_of [(''Accept'', ''application/json''), (''x-api-key'', ''s3cret'')] ''Accept''
       = Some ''application/json''
   \<and> map_of [(''Accept'', ''application/json''), (''x-api-key'', ''s3cret'')] ''x-api-key''
       = Some (PREDICTOR_API_KEY (demo_env [(''PREDICTOR_API_KEY'', ''s3cret'')]))
   \<and> requests (fetchPredictorMatch (demo_env []) ''m1'' False False (scenario_ups 0) 0 Map.empty)
     = [\<lparr>target = ''http://localhost:5000/predict/m1'', detail_param = False,
         hdrs = [(''Accept'', ''application/json'')]\<rparr>]"
proof -
  let ?r = "\<lparr>target = ''http://localhost:5000/predict/m1'', detail_param = True,
         hdrs = [(''Accept'', ''application/json''), (''x-api-key'', ''s3cret'')]\<rparr>"
  let ?K = "demo_env [(''PREDICTOR_API_KEY'', ''s3cret'')]"
  have mem: "?r \<in> set (requests (fetchPredictorMatch ?K ''m1'' True True (scenario_ups 0) 0 Map.empty))"
    by (simp add: fetch_vip_m1)
  from fetch_headers [OF mem]
  have "map_of [(''Accept'', ''application/json''), (''x-api-key'', ''s3cret'')] ''Accept''
         = Some ''application/json''
       \<and> map_of [(''Accept'', ''application/json''), (''x-api-key'', ''s3cret'')] ''x-api-key''
         = Some (PREDICTOR_API_KEY ?K)"
    by simp
  then show ?thesis by (simp add: fetch_vip_m1 fetch_public_m1)
qed

text \<open>
  Claim C5. Whenever \<^verbatim>\<open>fetchPredictorMatch\<close> has sent its request, a response with a
  non-success status, a transport error (or no response at all, which the timer turns into
  an abort) and a body that fails to decode as JSON all end the call in the same way: it
  returns \<^verbatim>\<open>null\<close>. None of them makes the call throw.
\<close>

theorem fetch_failures_uniform:
  assumes "requests (fetchPredictorMatch E m d f up now c) \<noteq> []"
    and "up = NoResponse \<or> up = TransportError dl \<or> up = Response dl False b
         \<or> up = Response dl True (BodyError e)"
  shows "\<exists>t. outcome (fetchPredictorMatch E m d f up now c) = Returns t JNull"
proof -
  from assms(1) obtain r where "fst (start E m d f now c) = Sent r"
    using request_sent by blast
  then show ?thesis using assms(2)
    by (auto simp: outcome_fetch settle_def)
qed

theorem fetch_failures_uniform_witness:
  "(\<exists>t. outcome (fetchPredictorMatch (demo_env []) ''m1'' False False
            (Response 10 False (BodyJson 5 home_pick)) 0 Map.empty) = Returns t JNull)
   \<and> (\<exists>t. outcome (fetchPredictorMatch (demo_env []) ''m1'' False False
            (TransportError 10) 0 Map.empty) = Returns t JNull)
   \<and> (\<exists>t. outcome (fetchPredictorMatch (demo_env []) ''m1'' False False
            (Response 10 True (BodyError 5)) 0 Map.empty) = Returns t JNull)"
proof -
  have sent: "requests (fetchPredictorMatch (demo_env []) ''m1'' False False up 0 Map.empty) \<noteq> []" for up
    by (simp add: requests_fetch start_def getCache_def demo_valid sent_of_def Let_def)
  have a: "\<exists>t. outcome (fetchPredictorMatch (demo_env []) ''m1'' False False
            (Response 10 False (BodyJson 5 home_pick)) 0 Map.empty) = Returns t JNull"
    by (rule fetch_failures_uniform [OF sent, where dl = 10 and b = "BodyJson 5 home_pick"]) simp
  have b: "\<exists>t. outcome (fetchPredictorMatch (demo_env []) ''m1'' False False
            (TransportError 10) 0 Map.empty) = Returns t JNull"
    by (rule fetch_failures_uniform [OF sent, where dl = 10]) simp
  have c: "\<exists>t. outcome (fetchPredictorMatch (demo_env []) ''m1'' False False
            (Response 10 True (BodyError 5)) 0 Map.empty) = Returns t JNull"
    by (rule fetch_failures_uniform [OF sent, where dl = 10 and e = 5]) simp
  from a b c show ?thesis by blast
qed

text \<open>
  Claim C7, as stated, fails on a failed fetch for a key whose entry has expired: the lookup
  at the start of the call deletes the entry, so the cache is not left unchanged.
\<close>

theorem failed_fetch_purges_counterexample:
  "outcome (fetchPredictorMatch (demo_env []) ''A'' False False (TransportError 10) 100000 expired_cache)
     = Returns 100010 JNull
   \<and> cache_after (fetchPredictorMatch (demo_env []) ''A'' False False (TransportError 10) 100000
        expired_cache) \<noteq> expired_cache"
proof -
  let ?r = "fetchPredictorMatch (demo_env []) ''A'' False False (TransportError 10) 100000 expired_cache"
  have st: "start (demo_env []) ''A'' False False 100000 expired_cache
      = (Sent \<lparr>target = strip_slash (PREDICTOR_URL (demo_env [])) @ ''/predict/'' @ encodeURIComponent ''A'',
               detail_param = False, hdrs = build_headers (demo_env []) False\<rparr>,
         expired_cache(cacheKey ''A'' False := None))"
    by (simp add: start_def getCache_def expired_cache_def demo_valid Let_def)
  have o: "outcome ?r = Returns 100010 JNull"
    by (simp add: outcome_fetch st settle_def)
  have "cache_after ?r (cacheKey ''A'' False) = None"
    by (simp add: fetchPredictorMatch_def st settle_def write_back_def)
  moreover have "expired_cache (cacheKey ''A'' False) \<noteq> None"
    by (simp add: expired_cache_def)
  ultimately have "cache_after ?r \<noteq> expired_cache" by metis
  with o show ?thesis by simp
qed

text \<open>
  Claim C7, amended. A call whose request was sent and answered with a success status and
  a JSON body, the head arriving before the timer fires, returns the payload and stores it
  under the key of (match id, detail) with a time to live of 20 seconds, stamped with the
  clock reading at which the body was read. Every other call creates and overwrites no
  entry: the cache it leaves is the one its own lookup left, which differs from the cache
  before at most by the removal of the expired entry under the call's own key, so that
  every later lookup returns what it would have returned on the cache before. A call
  answered from the cache leaves the cache unchanged.
\<close>

theorem fetch_cache_effect:
  "(requests (fetchPredictorMatch E m d f up now c) \<noteq> [] \<and> up = Response dl True (BodyJson e v)
      \<and> dl < 5000 \<longrightarrow>
       outcome (fetchPredictorMatch E m d f up now c) = Returns (now + int dl + int e) v
       \<and> cache_after (fetchPredictorMatch E m d f up now c)
           = c(cacheKey m d \<mapsto> \<lparr>ts = now + int dl + int e, ttlSec = 20, val = v\<rparr>))
   \<and> (\<not> (requests (fetchPredictorMatch E m d f up now c) \<noteq> []
           \<and> (\<exists>dl e v. up = Response dl True (BodyJson e v) \<and> dl < 5000)) \<longrightarrow>
         cache_after (fetchPredictorMatch E m d f up now c) = snd (getCache (cacheKey m d) now c)
         \<and> (\<forall>k en. cache_after (fetchPredictorMatch E m d f up now c) k = Some en \<longrightarrow> c k = Some en)
         \<and> (\<forall>k. k \<noteq> cacheKey m d \<longrightarrow> cache_after (fetchPredictorMatch E m d f up now c) k = c k)
         \<and> (\<forall>k now'. now \<le> now' \<longrightarrow>
               fst (getCache k now' (cache_after (fetchPredictorMatch E m d f up now c)))
                 = fst (getCache k now' c)))
   \<and> (truthy (fst (getCache (cacheKey m d) now c)) \<longrightarrow>
         outcome (fetchPredictorMatch E m d f up now c) = Returns now (fst (getCache (cacheKey m d) now c))
         \<and> cache_after (fetchPredictorMatch E m d f up now c) = c)"
proof -
  let ?r = "fetchPredictorMatch E m d f up now c"
  let ?k = "cacheKey m d"
  have a: "requests ?r \<noteq> [] \<and> up = Response dl True (BodyJson e v) \<and> dl < 5000 \<longrightarrow>
       outcome ?r = Returns (now + int dl + int e) v
       \<and> cache_after ?r = c(?k \<mapsto> \<lparr>ts = now + int dl + int e, ttlSec = 20, val = v\<rparr>)"
  proof (intro impI, elim conjE)
    assume req: "requests ?r \<noteq> []" and up: "up = Response dl True (BodyJson e v)" and dl: "dl < 5000"
    from req obtain r where st: "fst (start E m d f now c) = Sent r"
      using request_sent by blast
    have o: "outcome ?r = Returns (now + int dl + int e) v"
      using st up dl by (simp add: outcome_fetch settle_def)
    have "cache_after ?r = setCache ?k v (Some 20) (now + int dl + int e) (snd (getCache ?k now c))"
      using st up dl by (simp add: cache_fetch settle_def write_back_def)
    moreover have "setCache ?k v (Some 20) t (snd (getCache ?k now c)) = setCache ?k v (Some 20) t c" for t
      using getCache_snd_cases [of ?k now c] by (auto simp: setCache_def)
    ultimately show "outcome ?r = Returns (now + int dl + int e) v
       \<and> cache_after ?r = c(?k \<mapsto> \<lparr>ts = now + int dl + int e, ttlSec = 20, val = v\<rparr>)"
      using o by (simp add: setCache_def)
  qed
  have b: "\<not> (requests ?r \<noteq> [] \<and> (\<exists>dl e v. up = Response dl True (BodyJson e v) \<and> dl < 5000)) \<longrightarrow>
         cache_after ?r = snd (getCache ?k now c)
         \<and> (\<forall>k en. cache_after ?r k = Some en \<longrightarrow> c k = Some en)
         \<and> (\<forall>k. k \<noteq> ?k \<longrightarrow> cache_after ?r k = c k)
         \<and> (\<forall>k now'. now \<le> now' \<longrightarrow>
               fst (getCache k now' (cache_after ?r)) = fst (getCache k now' c))"
  proof
    assume h: "\<not> (requests ?r \<noteq> [] \<and> (\<exists>dl e v. up = Response dl True (BodyJson e v) \<and> dl < 5000))"
    have "snd (settle (fst (start E m d f now c)) up now) = None"
    proof (cases "snd (settle (fst (start E m d f now c)) up now)")
      case None then show ?thesis .
    next
      case (Some w)
      obtain t v where "w = (t, v)" by (cases w)
      with Some settle_write [of "fst (start E m d f now c)" up now t v]
      obtain r dl e where "fst (start E m d f now c) = Sent r" "up = Response dl True (BodyJson e v)"
        "dl < 5000"
        by auto
      with h show ?thesis by (auto simp: requests_fetch sent_of_def)
    qed
    then have eq: "cache_after ?r = snd (getCache ?k now c)"
      by (simp add: cache_fetch write_back_def)
    show "cache_after ?r = snd (getCache ?k now c)
         \<and> (\<forall>k en. cache_after ?r k = Some en \<longrightarrow> c k = Some en)
         \<and> (\<forall>k. k \<noteq> ?k \<longrightarrow> cache_after ?r k = c k)
         \<and> (\<forall>k now'. now \<le> now' \<longrightarrow>
               fst (getCache k now' (cache_after ?r)) = fst (getCache k now' c))"
    proof (intro conjI allI impI)
      show "fst (getCache k now' (cache_after ?r)) = fst (getCache k now' c)"
        if "now \<le> now'" for k now'
        using that unfolding eq by (rule getCache_after_purge)
      show "cache_after ?r = snd (getCache ?k now c)" by (rule eq)
      show "c k = Some en" if "cache_after ?r k = Some en" for k en
        using that unfolding eq by (rule getCache_no_new)
      show "cache_after ?r k = c k" if "k \<noteq> ?k" for k
        using that unfolding eq by (rule getCache_other)
    qed
  qed
  have d: "truthy (fst (getCache ?k now c)) \<longrightarrow>
         outcome ?r = Returns now (fst (getCache ?k now c)) \<and> cache_after ?r = c"
  proof
    assume h: "truthy (fst (getCache ?k now c))"
    then have st: "fst (start E m d f now c) = Hit (fst (getCache ?k now c))"
      by (simp add: start_def Let_def case_prod_beta)
    show "outcome ?r = Returns now (fst (getCache ?k now c)) \<and> cache_after ?r = c"
      using st h by (simp add: outcome_fetch cache_fetch settle_def write_back_def getCache_hit_keeps)
  qed
  from a b d show ?thesis by blast
qed

theorem fetch_cache_effect_witness:
  "cache_after (fetchPredictorMatch (demo_env []) ''m1'' False False (scenario_ups 0) 0 Map.empty)
     = [cacheKey ''m1'' False \<mapsto> \<lparr>ts = 15, ttlSec = 20, val = home_pick\<rparr>]
   \<and> cache_after (fetchPredictorMatch (demo_env []) ''m1'' False False (TransportError 10) 0 Map.empty)
     = Map.empty
   \<and> fetchPredictorMatch (demo_env []) ''m1'' False False NoResponse 20
       [cacheKey ''m1'' False \<mapsto> \<lparr>ts = 15, ttlSec = 20, val = home_pick\<rparr>]
     = \<lparr>outcome = Returns 20 home_pick,
        cache_after = [cacheKey ''m1'' False \<mapsto> \<lparr>ts = 15, ttlSec = 20, val = home_pick\<rparr>],
        requests = []\<rparr>"
proof -
  let ?E = "demo_env []"
  let ?c = "[cacheKey ''m1'' False \<mapsto> \<lparr>ts = 15, ttlSec = 20, val = home_pick\<rparr>]"
  have sent: "requests (fetchPredictorMatch ?E ''m1'' False False up 0 Map.empty) \<noteq> []" for up
    by (simp add: requests_fetch start_def getCache_def demo_valid sent_of_def Let_def)
  have su: "scenario_ups 0 = Response 10 True (BodyJson 5 home_pick)"
    by (simp add: scenario_ups_def)
  have "requests (fetchPredictorMatch ?E ''m1'' False False (Response 10 True (BodyJson 5 home_pick)) 0
          Map.empty) \<noteq> []
      \<and> Response 10 True (BodyJson 5 home_pick) = Response 10 True (BodyJson 5 home_pick)
      \<and> (10::nat) < 5000"
    using sent by simp
  then have a: "cache_after (fetchPredictorMatch ?E ''m1'' False False (scenario_ups 0) 0 Map.empty)
     = [cacheKey ''m1'' False \<mapsto> \<lparr>ts = 15, ttlSec = 20, val = home_pick\<rparr>]"
    unfolding su
    using fetch_cache_effect [where E = ?E and m = "''m1''" and d = False and f = False
        and up = "Response 10 True (BodyJson 5 home_pick)" and now = 0 and c = Map.empty
        and dl = 10 and e = 5 and v = home_pick, THEN conjunct1]
    by simp
  have "\<not> (requests (fetchPredictorMatch ?E ''m1'' False False (TransportError 10) 0 Map.empty) \<noteq> []
           \<and> (\<exists>dl e v. TransportError 10 = Response dl True (BodyJson e v) \<and> dl < 5000))"
    by simp
  then have "cache_after (fetchPredictorMatch ?E ''m1'' False False (TransportError 10) 0 Map.empty)
     = snd (getCache (cacheKey ''m1'' False) 0 Map.empty)"
    using fetch_cache_effect [where E = ?E and m = "''m1''" and d = False and f = False
        and up = "TransportError 10" and now = 0 and c = Map.empty, THEN conjunct2, THEN conjunct1]
    by blast
  then have b: "cache_after (fetchPredictorMatch ?E ''m1'' False False (TransportError 10) 0 Map.empty)
     = Map.empty"
    by (simp add: getCache_def)
  have g: "getCache (cacheKey ''m1'' False) 20 ?c = (home_pick, ?c)"
    by (simp add: getCache_def)
  then have "truthy (fst (getCache (cacheKey ''m1'' False) 20 ?c))"
    by (simp add: home_pick_truthy)
  then have "outcome (fetchPredictorMatch ?E ''m1'' False False NoResponse 20 ?c)
        = Returns 20 (fst (getCache (cacheKey ''m1'' False) 20 ?c))
      \<and> cache_after (fetchPredictorMatch ?E ''m1'' False False NoResponse 20 ?c) = ?c"
    using fetch_cache_effect [where E = ?E and m = "''m1''" and d = False and f = False
        and up = NoResponse and now = 20 and c = ?c, THEN conjunct2, THEN conjunct2]
    by blast
  moreover have "requests (fetchPredictorMatch ?E ''m1'' False False NoResponse 20 ?c) = []"
    by (simp add: requests_fetch start_def g home_pick_truthy sent_of_def Let_def)
  ultimately have c: "fetchPredictorMatch ?E ''m1'' False False NoResponse 20 ?c
     = \<lparr>outcome = Returns 20 home_pick, cache_after = ?c, requests = []\<rparr>"
    by (cases "fetchPredictorMatch ?E ''m1'' False False NoResponse 20 ?c") (simp add: g)
  from a b c show ?thesis by blast
qed

lemma fetch_no_response_timeout:
  "requests (fetchPredictorMatch E m d f NoResponse now c) \<noteq> [] \<Longrightarrow>
     outcome (fetchPredictorMatch E m d f NoResponse now c) = Returns (now + 5000) JNull"
  by (auto simp: requests_fetch outcome_fetch sent_of_def settle_def split: started.splits)

lemma fetch_late_head_timeout:
  "requests (fetchPredictorMatch E m d f (Response dl ok b) now c) \<noteq> [] \<Longrightarrow> 5000 \<le> dl \<Longrightarrow>
     outcome (fetchPredictorMatch E m d f (Response dl ok b) now c) = Returns (now + 5000) JNull"
  by (auto simp: requests_fetch outcome_fetch sent_of_def settle_def split: started.splits)

text \<open>
  Claim C8. The timer bounds the wait for the response head only: a predictor that never
  answers, or whose head comes after 5000 ms, makes the call return \<^verbatim>\<open>null\<close> at 5000 ms
  (the two lemmas above). Once the head has arrived, line 183 clears the timer before line
  188 awaits the body. With a predictor that sends a success head after 10 ms and never
  finishes the body, the call never settles; with one that takes a minute over the body,
  the call returns after 60010 ms.
\<close>

theorem fetch_body_not_bounded:
  "outcome (fetchPredictorMatch (demo_env []) ''m1'' False False (Response 10 True BodyNever) 0 Map.empty)
     = Never
   \<and> outcome (fetchPredictorMatch (demo_env []) ''m1'' False False
        (Response 10 True (BodyJson 60000 home_pick)) 0 Map.empty)
     = Returns 60010 home_pick"
  by (simp add: outcome_fetch start_def settle_def getCache_def demo_valid Let_def)

section \<open>The single-match handler\<close>

text \<open>
  Claim C1, as stated, fails for a caller with a valid token whose payload has
  \<^verbatim>\<open>subscribed\<close> true: when the predictor answers with a success status and the JSON body
  \<^verbatim>\<open>false\<close>, line 252 takes the payload for a failure and the reply is 502, not 200 with
  the payload; and when no key is configured, the request that goes upstream carries no
  \<^verbatim>\<open>x-api-key\<close> header.
\<close>

theorem falsy_payload_counterexample:
  "outcome (single_prediction (demo_env [(''PREDICTOR_API_KEY'', ''s3cret'')]) ''m1''
       (Some (QStr ''true'')) (Some ''vip.token'') (Response 10 True (BodyJson 5 (JBool False)))
       0 Map.empty)
     = Returns 15 \<lparr>status = 502, body = error_body ''Prediction service unavailable''\<rparr>
   \<and> requests (single_prediction (demo_env []) ''m1''
       (Some (QStr ''true'')) (Some ''vip.token'') (Response 10 True (BodyJson 5 home_pick))
       0 Map.empty)
     = [\<lparr>target = ''http://localhost:5000/predict/m1'', detail_param = True,
         hdrs = [(''Accept'', ''application/json'')]\<rparr>]"
proof -
  let ?K = "demo_env [(''PREDICTOR_API_KEY'', ''s3cret'')]" and ?E = "demo_env []"
  have q: "parse_detail (Some (QStr ''true'')) = Some True"
    by (simp add: parse_detail_def toLowerCase_def lower_char_def)
  have s: "strip_bearer ''vip.token'' = ''vip.token''"
    by (simp add: strip_bearer_def toLowerCase_def lower_char_def)
  have g: "gate ?K True (Some ''vip.token'') = Inr True" "gate ?E True (Some ''vip.token'') = Inr True"
    by (simp_all add: gate_detail verifyJWT_def s demo_env_def demo_jwt_def env_or_def truthy_opt_def)
  have miss: "\<not> truthy (fst (getCache k 0 Map.empty))" for k
    by (simp add: getCache_def)
  have a: "outcome (single_prediction ?K ''m1'' (Some (QStr ''true'')) (Some ''vip.token'')
       (Response 10 True (BodyJson 5 (JBool False))) 0 Map.empty)
     = Returns 15 \<lparr>status = 502, body = error_body ''Prediction service unavailable''\<rparr>"
    by (simp add: single_gate [OF q] g outcome_reply start_miss [OF miss demo_valid] settle_def)
  have b: "requests (single_prediction ?E ''m1'' (Some (QStr ''true'')) (Some ''vip.token'')
       (Response 10 True (BodyJson 5 home_pick)) 0 Map.empty)
     = [\<lparr>target = ''http://localhost:5000/predict/m1'', detail_param = True,
         hdrs = [(''Accept'', ''application/json'')]\<rparr>]"
    by (simp add: single_gate [OF q] g requests_reply requests_fetch start_miss [OF miss demo_valid]
          sent_of_def build_headers_def demo_no_key demo_url strip_slash_def encodeURIComponent_def
          encode_char_def unreserved_def)
  from a b show ?thesis by simp
qed

text \<open>
  Claim C1, amended. For a request to \<^verbatim>\<open>GET /api/prediction/:matchId\<close> whose detail flag
  is true: with no \<^verbatim>\<open>Authorization\<close> header, an empty one, or a token that \<^verbatim>\<open>jwt.verify\<close>
  rejects, the reply is 401 and no request goes upstream; with a token whose payload has
  \<^verbatim>\<open>subscribed\<close> false, the reply is 403 with a \<^verbatim>\<open>teaser\<close> field and no request goes
  upstream; with a token whose payload has \<^verbatim>\<open>subscribed\<close> true, the handler goes on to
  the fetch with the detail flag and \<^verbatim>\<open>forwardApiKey\<close> true. A truthy cached payload is
  then returned with 200 and nothing goes upstream. Otherwise one request goes upstream, to
  the URL of the match with the detail parameter, the \<^verbatim>\<open>Accept\<close> header and, when a key
  is configured, the \<^verbatim>\<open>x-api-key\<close> header with that key; the reply is 200 with the payload
  the predictor sent when that payload is truthy, and 502 when the payload is falsy or the
  fetch fails (no answer within 5000 ms, a transport error, a non-success status, a body
  that does not decode). The token is read alike with and without the word \<^verbatim>\<open>Bearer\<close>,
  in any letter case, and white space in front of it.
\<close>

theorem detail_gating:
  assumes detail: "parse_detail q = Some True"
  shows
    "((auth = None \<or> auth = Some [] \<or>
        (\<exists>h. auth = Some h \<and> jwt_verify E (strip_bearer h) (env_or E ''JWT_SECRET'' ''dev-secret'') = None)) \<longrightarrow>
        outcome (single_prediction E matchId q auth up now c)
          = Returns now \<lparr>status = 401, body = error_body ''Missing or invalid token for detailed analysis''\<rparr>
        \<and> requests (single_prediction E matchId q auth up now c) = []
        \<and> cache_after (single_prediction E matchId q auth up now c) = c)
   \<and> (auth = Some h \<and> h \<noteq> []
        \<and> jwt_verify E (strip_bearer h) (env_or E ''JWT_SECRET'' ''dev-secret'') = Some p
        \<and> get_prop p ''subscribed'' = Some (JBool False) \<longrightarrow>
        (\<exists>msg. outcome (single_prediction E matchId q auth up now c)
                 = Returns now \<lparr>status = 403, body = JObj [(''teaser'', JStr msg)]\<rparr>)
        \<and> requests (single_prediction E matchId q auth up now c) = []
        \<and> cache_after (single_prediction E matchId q auth up now c) = c)
   \<and> (auth = Some h \<and> h \<noteq> []
        \<and> jwt_verify E (strip_bearer h) (env_or E ''JWT_SECRET'' ''dev-secret'') = Some p
        \<and> get_prop p ''subscribed'' = Some (JBool True) \<longrightarrow>
        (truthy (fst (getCache (cacheKey matchId True) now c)) \<longrightarrow>
           outcome (single_prediction E matchId q auth up now c)
             = Returns now \<lparr>status = 200, body = fst (getCache (cacheKey matchId True) now c)\<rparr>
           \<and> requests (single_prediction E matchId q auth up now c) = [])
        \<and> (\<not> truthy (fst (getCache (cacheKey matchId True) now c))
            \<and> valid_url E (strip_slash (PREDICTOR_URL E) @ ''/predict/'' @ encodeURIComponent matchId) \<longrightarrow>
           requests (single_prediction E matchId q auth up now c)
             = [\<lparr>target = strip_slash (PREDICTOR_URL E) @ ''/predict/'' @ encodeURIComponent matchId,
                 detail_param = True,
                 hdrs = (''Accept'', ''application/json'')
                        # (if PREDICTOR_API_KEY E = [] then []
                           else [(''x-api-key'', PREDICTOR_API_KEY E)])\<rparr>]
           \<and> (up = Response dl True (BodyJson e v) \<and> dl < 5000 \<and> truthy v \<longrightarrow>
                 outcome (single_prediction E matchId q auth up now c)
                   = Returns (now + int dl + int e) \<lparr>status = 200, body = v\<rparr>)
           \<and> (up = Response dl True (BodyJson e v) \<and> dl < 5000 \<and> \<not> truthy v \<longrightarrow>
                 outcome (single_prediction E matchId q auth up now c)
                   = Returns (now + int dl + int e)
                       \<lparr>status = 502, body = error_body ''Prediction service unavailable''\<rparr>)
           \<and> (up = NoResponse \<or> up = TransportError dl \<or> up = Response dl False b
                \<or> up = Response dl True (BodyError e) \<or> (up = Response dl ok b \<and> 5000 \<le> dl) \<longrightarrow>
                 (\<exists>t. outcome (single_prediction E matchId q auth up now c)
                        = Returns t \<lparr>status = 502, body = error_body ''Prediction service unavailable''\<rparr>))))
   \<and> (toLowerCase w = ''bearer'' \<and> sp \<noteq> [] \<and> (\<forall>ch \<in> set sp. is_space ch)
        \<and> tok \<noteq> [] \<and> (\<forall>ch \<in> set tok. \<not> is_space ch) \<longrightarrow>
        single_prediction E matchId q (Some (w @ sp @ tok)) up now c
          = single_prediction E matchId q (Some tok) up now c)"
proof -
  let ?secret = "env_or E ''JWT_SECRET'' ''dev-secret''"
  let ?run = "single_prediction E matchId q auth up now c"
  let ?cached = "fst (getCache (cacheKey matchId True) now c)"
  let ?url = "strip_slash (PREDICTOR_URL E) @ ''/predict/'' @ encodeURIComponent matchId"
  let ?bad = "\<lparr>status = 502, body = error_body ''Prediction service unavailable''\<rparr>"
  note sg = single_gate [OF detail]
  have a: "(auth = None \<or> auth = Some [] \<or>
        (\<exists>h. auth = Some h \<and> jwt_verify E (strip_bearer h) ?secret = None)) \<longrightarrow>
        outcome ?run = Returns now \<lparr>status = 401, body = error_body ''Missing or invalid token for detailed analysis''\<rparr>
        \<and> requests ?run = [] \<and> cache_after ?run = c"
  proof
    assume "auth = None \<or> auth = Some [] \<or>
        (\<exists>h. auth = Some h \<and> jwt_verify E (strip_bearer h) ?secret = None)"
    then have "verifyJWT E (case auth of None \<Rightarrow> [] | Some h \<Rightarrow> h) = JNull"
      by (auto simp: verifyJWT_def)
    then have "gate E True auth = Inl \<lparr>status = 401, body = error_body ''Missing or invalid token for detailed analysis''\<rparr>"
      by (simp add: gate_detail)
    then show "outcome ?run = Returns now \<lparr>status = 401, body = error_body ''Missing or invalid token for detailed analysis''\<rparr>
        \<and> requests ?run = [] \<and> cache_after ?run = c"
      by (simp add: sg)
  qed
  have b: "auth = Some h \<and> h \<noteq> [] \<and> jwt_verify E (strip_bearer h) ?secret = Some p
        \<and> get_prop p ''subscribed'' = Some (JBool False) \<longrightarrow>
        (\<exists>msg. outcome ?run = Returns now \<lparr>status = 403, body = JObj [(''teaser'', JStr msg)]\<rparr>)
        \<and> requests ?run = [] \<and> cache_after ?run = c"
  proof
    assume h: "auth = Some h \<and> h \<noteq> [] \<and> jwt_verify E (strip_bearer h) ?secret = Some p
        \<and> get_prop p ''subscribed'' = Some (JBool False)"
    then have v: "verifyJWT E (case auth of None \<Rightarrow> [] | Some h \<Rightarrow> h) = p"
      by (simp add: verifyJWT_def)
    have "truthy p" using h get_prop_truthy by blast
    then have "gate E True auth = Inl \<lparr>status = 403,
                   body = JObj [(''teaser'',
                     JStr ''Full analysis available for VIPs. Start a trial for R199/month.'')]\<rparr>"
      using h v by (simp add: gate_detail truthy_opt_def)
    then show "(\<exists>msg. outcome ?run = Returns now \<lparr>status = 403, body = JObj [(''teaser'', JStr msg)]\<rparr>)
        \<and> requests ?run = [] \<and> cache_after ?run = c"
      by (simp add: sg)
  qed
  have d: "auth = Some h \<and> h \<noteq> [] \<and> jwt_verify E (strip_bearer h) ?secret = Some p
        \<and> get_prop p ''subscribed'' = Some (JBool True) \<longrightarrow>
        (truthy ?cached \<longrightarrow>
           outcome ?run = Returns now \<lparr>status = 200, body = ?cached\<rparr> \<and> requests ?run = [])
        \<and> (\<not> truthy ?cached \<and> valid_url E ?url \<longrightarrow>
           requests ?run
             = [\<lparr>target = ?url, detail_param = True,
                 hdrs = (''Accept'', ''application/json'')
                        # (if PREDICTOR_API_KEY E = [] then []
                           else [(''x-api-key'', PREDICTOR_API_KEY E)])\<rparr>]
           \<and> (up = Response dl True (BodyJson e v) \<and> dl < 5000 \<and> truthy v \<longrightarrow>
                 outcome ?run = Returns (now + int dl + int e) \<lparr>status = 200, body = v\<rparr>)
           \<and> (up = Response dl True (BodyJson e v) \<and> dl < 5000 \<and> \<not> truthy v \<longrightarrow>
                 outcome ?run = Returns (now + int dl + int e) ?bad)
           \<and> (up = NoResponse \<or> up = TransportError dl \<or> up = Response dl False b
                \<or> up = Response dl True (BodyError e) \<or> (up = Response dl ok b \<and> 5000 \<le> dl) \<longrightarrow>
                 (\<exists>t. outcome ?run = Returns t ?bad)))"
  proof
    assume h: "auth = Some h \<and> h \<noteq> [] \<and> jwt_verify E (strip_bearer h) ?secret = Some p
        \<and> get_prop p ''subscribed'' = Some (JBool True)"
    then have v: "verifyJWT E (case auth of None \<Rightarrow> [] | Some h \<Rightarrow> h) = p"
      by (simp add: verifyJWT_def)
    have "truthy p" using h get_prop_truthy by blast
    then have "gate E True auth = Inr True"
      using h v by (simp add: gate_detail truthy_opt_def)
    then have run: "?run = fetch_and_reply E matchId True True up now c"
      by (simp add: sg)
    have hit: "outcome ?run = Returns now \<lparr>status = 200, body = ?cached\<rparr> \<and> requests ?run = []"
      if "truthy ?cached"
      using that
      by (simp add: run outcome_reply requests_reply requests_fetch start_hit settle_def sent_of_def)
    have miss: "requests ?run
             = [\<lparr>target = ?url, detail_param = True,
                 hdrs = (''Accept'', ''application/json'')
                        # (if PREDICTOR_API_KEY E = [] then []
                           else [(''x-api-key'', PREDICTOR_API_KEY E)])\<rparr>]
           \<and> (up = Response dl True (BodyJson e v) \<and> dl < 5000 \<and> truthy v \<longrightarrow>
                 outcome ?run = Returns (now + int dl + int e) \<lparr>status = 200, body = v\<rparr>)
           \<and> (up = Response dl True (BodyJson e v) \<and> dl < 5000 \<and> \<not> truthy v \<longrightarrow>
                 outcome ?run = Returns (now + int dl + int e) ?bad)
           \<and> (up = NoResponse \<or> up = TransportError dl \<or> up = Response dl False b
                \<or> up = Response dl True (BodyError e) \<or> (up = Response dl ok b \<and> 5000 \<le> dl) \<longrightarrow>
                 (\<exists>t. outcome ?run = Returns t ?bad))"
      if m: "\<not> truthy ?cached \<and> valid_url E ?url"
    proof -
      have st: "fst (start E matchId True True now c)
          = Sent \<lparr>target = ?url, detail_param = True, hdrs = build_headers E True\<rparr>"
        using m by (simp add: start_miss)
      have r: "requests ?run
             = [\<lparr>target = ?url, detail_param = True,
                 hdrs = (''Accept'', ''application/json'')
                        # (if PREDICTOR_API_KEY E = [] then []
                           else [(''x-api-key'', PREDICTOR_API_KEY E)])\<rparr>]"
        by (simp add: run requests_reply requests_fetch st sent_of_def build_headers_def)
      have ok: "up = Response dl True (BodyJson e v) \<and> dl < 5000 \<and> truthy v \<longrightarrow>
                 outcome ?run = Returns (now + int dl + int e) \<lparr>status = 200, body = v\<rparr>"
        unfolding run outcome_reply st by (simp add: settle_def)
      have falsy: "up = Response dl True (BodyJson e v) \<and> dl < 5000 \<and> \<not> truthy v \<longrightarrow>
                 outcome ?run = Returns (now + int dl + int e) ?bad"
        unfolding run outcome_reply st by (simp add: settle_def)
      have fail: "up = NoResponse \<or> up = TransportError dl \<or> up = Response dl False b
                \<or> up = Response dl True (BodyError e) \<or> (up = Response dl ok b \<and> 5000 \<le> dl) \<longrightarrow>
                 (\<exists>t. outcome ?run = Returns t ?bad)"
        unfolding run outcome_reply st by (auto simp: settle_def)
      from r ok falsy fail show ?thesis by blast
    qed
    from hit miss show "(truthy ?cached \<longrightarrow>
           outcome ?run = Returns now \<lparr>status = 200, body = ?cached\<rparr> \<and> requests ?run = [])
        \<and> (\<not> truthy ?cached \<and> valid_url E ?url \<longrightarrow>
           requests ?run
             = [\<lparr>target = ?url, detail_param = True,
                 hdrs = (''Accept'', ''application/json'')
                        # (if PREDICTOR_API_KEY E = [] then []
                           else [(''x-api-key'', PREDICTOR_API_KEY E)])\<rparr>]
           \<and> (up = Response dl True (BodyJson e v) \<and> dl < 5000 \<and> truthy v \<longrightarrow>
                 outcome ?run = Returns (now + int dl + int e) \<lparr>status = 200, body = v\<rparr>)
           \<and> (up = Response dl True (BodyJson e v) \<and> dl < 5000 \<and> \<not> truthy v \<longrightarrow>
                 outcome ?run = Returns (now + int dl + int e) ?bad)
           \<and> (up = NoResponse \<or> up = TransportError dl \<or> up = Response dl False b
                \<or> up = Response dl True (BodyError e) \<or> (up = Response dl ok b \<and> 5000 \<le> dl) \<longrightarrow>
                 (\<exists>t. outcome ?run = Returns t ?bad)))"
      by blast
  qed
  have e: "toLowerCase w = ''bearer'' \<and> sp \<noteq> [] \<and> (\<forall>ch \<in> set sp. is_space ch)
        \<and> tok \<noteq> [] \<and> (\<forall>ch \<in> set tok. \<not> is_space ch) \<longrightarrow>
        single_prediction E matchId q (Some (w @ sp @ tok)) up now c
          = single_prediction E matchId q (Some tok) up now c"
  proof
    assume "toLowerCase w = ''bearer'' \<and> sp \<noteq> [] \<and> (\<forall>ch \<in> set sp. is_space ch)
        \<and> tok \<noteq> [] \<and> (\<forall>ch \<in> set tok. \<not> is_space ch)"
    then have "verifyJWT E (w @ sp @ tok) = verifyJWT E tok"
      by (simp add: verifyJWT_bearer)
    then have "gate E True (Some (w @ sp @ tok)) = gate E True (Some tok)"
      by (simp add: gate_detail)
    then show "single_prediction E matchId q (Some (w @ sp @ tok)) up now c
          = single_prediction E matchId q (Some tok) up now c"
      by (simp add: single_gate [OF detail])
  qed
  from a b d e show ?thesis by blast
qed

theorem detail_gating_witness:
  "outcome (single_prediction (demo_env []) ''m1'' (Some (QStr ''true'')) None (scenario_ups 0) 0 Map.empty)
     = Returns 0 \<lparr>status = 401, body = error_body ''Missing or invalid token for detailed analysis''\<rparr>
   \<and> requests (single_prediction (demo_env []) ''m1'' (Some (QStr ''true'')) (Some ''forged.token'')
        (scenario_ups 0) 0 Map.empty) = []
   \<and> (\<exists>msg. outcome (single_prediction (demo_env []) ''m1'' (Some (QStr ''true'')) (Some ''free.token'')
                 (scenario_ups 0) 0 Map.empty)
         = Returns 0 \<lparr>status = 403, body = JObj [(''teaser'', JStr msg)]\<rparr>)
   \<and> outcome (single_prediction (demo_env [(''PREDICTOR_API_KEY'', ''s3cret'')]) ''m1'' (Some (QStr ''true''))
         (Some ''vip.token'') (Response 10 True (BodyJson 5 away_pick)) 0 Map.empty)
       = Returns 15 \<lparr>status = 200, body = away_pick\<rparr>
   \<and> requests (single_prediction (demo_env [(''PREDICTOR_API_KEY'', ''s3cret'')]) ''m1'' (Some (QStr ''true''))
         (Some ''vip.token'') (Response 10 True (BodyJson 5 away_pick)) 0 Map.empty)
       = [\<lparr>target = ''http://localhost:5000/predict/m1'', detail_param = True,
           hdrs = [(''Accept'', ''application/json''), (''x-api-key'', ''s3cret'')]\<rparr>]
   \<and> (\<exists>t. outcome (single_prediction (demo_env [(''PREDICTOR_API_KEY'', ''s3cret'')]) ''m1''
               (Some (QStr ''true'')) (Some ''vip.token'') (TransportError 10) 0 Map.empty)
         = Returns t \<lparr>status = 502, body = error_body ''Prediction service unavailable''\<rparr>)
   \<and> outcome (single_prediction (demo_env [(''PREDICTOR_API_KEY'', ''s3cret'')]) ''m1'' (Some (QStr ''true''))
         (Some ''vip.token'') NoResponse 20
         [cacheKey ''m1'' True \<mapsto> \<lparr>ts = 15, ttlSec = 20, val = home_pick\<rparr>])
       = Returns 20 \<lparr>status = 200, body = home_pick\<rparr>
   \<and> single_prediction (demo_env []) ''m1'' (Some (QStr ''true''))
         (Some (''bEARER'' @ [CHR 0xA0, CHR '' ''] @ ''vip.token'')) (scenario_ups 0) 0 Map.empty
       = single_prediction (demo_env []) ''m1'' (Some (QStr ''true'')) (Some ''vip.token'')
           (scenario_ups 0) 0 Map.empty"
proof -
  let ?E = "demo_env []" and ?K = "demo_env [(''PREDICTOR_API_KEY'', ''s3cret'')]"
  let ?q = "Some (QStr ''true'')"
  let ?ok = "Response 10 True (BodyJson 5 away_pick)"
  let ?c = "[cacheKey ''m1'' True \<mapsto> \<lparr>ts = 15, ttlSec = 20, val = home_pick\<rparr>]"
  have q: "parse_detail ?q = Some True"
    by (simp add: parse_detail_def toLowerCase_def lower_char_def)
  have s: "strip_bearer ''forged.token'' = ''forged.token''" "strip_bearer ''free.token'' = ''free.token''"
    "strip_bearer ''vip.token'' = ''vip.token''"
    by (simp_all add: strip_bearer_def toLowerCase_def lower_char_def)
  have forged: "\<exists>h. Some ''forged.token'' = Some h
       \<and> jwt_verify ?E (strip_bearer h) (env_or ?E ''JWT_SECRET'' ''dev-secret'') = None"
    by (simp add: s demo_env_def demo_jwt_def env_or_def)
  have free: "Some ''free.token'' = Some ''free.token'' \<and> ''free.token'' \<noteq> []
      \<and> jwt_verify ?E (strip_bearer ''free.token'') (env_or ?E ''JWT_SECRET'' ''dev-secret'')
          = Some (JObj [(''subscribed'', JBool False)])
      \<and> get_prop (JObj [(''subscribed'', JBool False)]) ''subscribed'' = Some (JBool False)"
    by (simp add: s demo_env_def demo_jwt_def env_or_def)
  have vip: "Some ''vip.token'' = Some ''vip.token'' \<and> ''vip.token'' \<noteq> []
      \<and> jwt_verify ?K (strip_bearer ''vip.token'') (env_or ?K ''JWT_SECRET'' ''dev-secret'')
          = Some (JObj [(''subscribed'', JBool True)])
      \<and> get_prop (JObj [(''subscribed'', JBool True)]) ''subscribed'' = Some (JBool True)"
    by (simp add: s demo_env_def demo_jwt_def env_or_def)
  have miss: "\<not> truthy (fst (getCache (cacheKey ''m1'' True) 0 Map.empty))
      \<and> valid_url ?K (strip_slash (PREDICTOR_URL ?K) @ ''/predict/'' @ encodeURIComponent ''m1'')"
    by (simp add: getCache_def demo_valid)
  have cached: "fst (getCache (cacheKey ''m1'' True) 20 ?c) = home_pick"
    by (simp add: getCache_def)
  have pre: "toLowerCase ''bEARER'' = ''bearer'' \<and> [CHR 0xA0, CHR '' ''] \<noteq> []
        \<and> (\<forall>ch \<in> set [CHR 0xA0, CHR '' '']. is_space ch)
        \<and> ''vip.token'' \<noteq> [] \<and> (\<forall>ch \<in> set ''vip.token''. \<not> is_space ch)"
    by (simp add: toLowerCase_def lower_char_def is_space_def char_of_eq_iff)
  have c1: "outcome (single_prediction ?E ''m1'' ?q None (scenario_ups 0) 0 Map.empty)
     = Returns 0 \<lparr>status = 401, body = error_body ''Missing or invalid token for detailed analysis''\<rparr>"
    using detail_gating [OF q, where auth = None and E = ?E and matchId = "''m1''"
        and up = "scenario_ups 0" and now = 0 and c = Map.empty, THEN conjunct1]
    by simp
  have c2: "requests (single_prediction ?E ''m1'' ?q (Some ''forged.token'') (scenario_ups 0) 0 Map.empty) = []"
    using forged detail_gating [OF q, where auth = "Some ''forged.token''" and E = ?E and matchId = "''m1''"
        and up = "scenario_ups 0" and now = 0 and c = Map.empty, THEN conjunct1]
    by blast
  have c3: "\<exists>msg. outcome (single_prediction ?E ''m1'' ?q (Some ''free.token'') (scenario_ups 0) 0 Map.empty)
         = Returns 0 \<lparr>status = 403, body = JObj [(''teaser'', JStr msg)]\<rparr>"
    using free detail_gating [OF q, where auth = "Some ''free.token''" and h = "''free.token''" and E = ?E
        and p = "JObj [(''subscribed'', JBool False)]" and matchId = "''m1''"
        and up = "scenario_ups 0" and now = 0 and c = Map.empty, THEN conjunct2, THEN conjunct1]
    by blast
  note sub = detail_gating [OF q, where auth = "Some ''vip.token''" and h = "''vip.token''" and E = ?K
        and p = "JObj [(''subscribed'', JBool True)]" and matchId = "''m1''",
        THEN conjunct2, THEN conjunct2, THEN conjunct1, rule_format, OF vip]
  note okg = sub [where up = ?ok and now = 0 and c = Map.empty and dl = 10 and e = 5 and v = away_pick,
        THEN conjunct2, rule_format, OF miss]
  have c4: "outcome (single_prediction ?K ''m1'' ?q (Some ''vip.token'') ?ok 0 Map.empty)
       = Returns 15 \<lparr>status = 200, body = away_pick\<rparr>"
    using okg [THEN conjunct2, THEN conjunct1] by (simp add: away_pick_def)
  have c5: "requests (single_prediction ?K ''m1'' ?q (Some ''vip.token'') ?ok 0 Map.empty)
       = [\<lparr>target = ''http://localhost:5000/predict/m1'', detail_param = True,
           hdrs = [(''Accept'', ''application/json''), (''x-api-key'', ''s3cret'')]\<rparr>]"
    using okg [THEN conjunct1]
    by (simp add: demo_key demo_key_url strip_slash_def encodeURIComponent_def encode_char_def
          unreserved_def)
  have c6: "\<exists>t. outcome (single_prediction ?K ''m1'' ?q (Some ''vip.token'') (TransportError 10) 0 Map.empty)
         = Returns t \<lparr>status = 502, body = error_body ''Prediction service unavailable''\<rparr>"
    using sub [where up = "TransportError 10" and now = 0 and c = Map.empty and dl = 10,
        THEN conjunct2, rule_format, OF miss, THEN conjunct2, THEN conjunct2, THEN conjunct2]
    by simp
  have c7: "outcome (single_prediction ?K ''m1'' ?q (Some ''vip.token'') NoResponse 20 ?c)
       = Returns 20 \<lparr>status = 200, body = home_pick\<rparr>"
    using sub [where up = NoResponse and now = 20 and c = ?c, THEN conjunct1]
    by (simp add: cached home_pick_truthy)
  have c8: "single_prediction ?E ''m1'' ?q (Some (''bEARER'' @ [CHR 0xA0, CHR '' ''] @ ''vip.token''))
         (scenario_ups 0) 0 Map.empty
       = single_prediction ?E ''m1'' ?q (Some ''vip.token'') (scenario_ups 0) 0 Map.empty"
    using pre detail_gating [OF q, where w = "''bEARER''" and sp = "[CHR 0xA0, CHR '' '']"
        and tok = "''vip.token''" and E = ?E and matchId = "''m1''" and up = "scenario_ups 0"
        and now = 0 and c = Map.empty, THEN conjunct2, THEN conjunct2, THEN conjunct2]
    by blast
  from c1 c2 c3 c4 c5 c6 c7 c8 show ?thesis by blast
qed

text \<open>
  Claim C10, as stated, fails for a detail parameter that is not a single string: a
  repeated parameter reaches the handler as an array, the call of \<^verbatim>\<open>toLowerCase\<close>
  throws, and the reply is 500 without any fetch.
\<close>

theorem repeated_detail_counterexample:
  "parse_detail (Some (QArr [''1'', ''yes''])) = None
   \<and> outcome (single_prediction (demo_env []) ''m1'' (Some (QArr [''1'', ''yes''])) None
        (scenario_ups 0) 0 Map.empty)
       = Returns 0 \<lparr>status = 500, body = error_body ''Server error''\<rparr>
   \<and> requests (single_prediction (demo_env []) ''m1'' (Some (QArr [''1'', ''yes''])) None
        (scenario_ups 0) 0 Map.empty) = []"
  by (simp add: parse_detail_def single_prediction_def)

text \<open>
  Claim C10, amended. For a request to \<^verbatim>\<open>GET /api/prediction/:matchId\<close> whose detail
  parameter is missing or a single string, the detail flag is true exactly when the string
  equals \<^verbatim>\<open>"true"\<close> up to letter case; a missing parameter and every other string give
  false, and the handler then goes on to \<^verbatim>\<open>fetchPredictorMatch\<close> with both flags
  false, whatever the \<^verbatim>\<open>Authorization\<close> header is: the request it sends has no
  \<^verbatim>\<open>x-api-key\<close> header and no detail parameter.
\<close>

theorem detail_flag_parsing:
  "parse_detail None = Some False
   \<and> parse_detail (Some (QStr s)) = Some (equals_true_ignoring_case s)
   \<and> (q = None \<or> (q = Some (QStr s) \<and> \<not> equals_true_ignoring_case s) \<longrightarrow>
        single_prediction E matchId q auth up now c = fetch_and_reply E matchId False False up now c
        \<and> requests (single_prediction E matchId q auth up now c)
            = requests (fetchPredictorMatch E matchId False False up now c)
        \<and> (\<forall>r \<in> set (requests (single_prediction E matchId q auth up now c)).
              map_of (hdrs r) ''x-api-key'' = None \<and> \<not> detail_param r))"
proof (intro conjI impI)
  show "parse_detail None = Some False" by (rule parse_detail_None)
  show "parse_detail (Some (QStr s)) = Some (equals_true_ignoring_case s)" by (rule parse_detail_QStr)
next
  assume "q = None \<or> (q = Some (QStr s) \<and> \<not> equals_true_ignoring_case s)"
  then have pd: "parse_detail q = Some False"
    using parse_detail_None parse_detail_QStr [of s] by auto
  show run: "single_prediction E matchId q auth up now c = fetch_and_reply E matchId False False up now c"
    by (simp add: single_gate [OF pd] gate_public)
  show req: "requests (single_prediction E matchId q auth up now c)
            = requests (fetchPredictorMatch E matchId False False up now c)"
    by (simp add: run requests_reply)
  show "\<forall>r \<in> set (requests (single_prediction E matchId q auth up now c)).
              map_of (hdrs r) ''x-api-key'' = None \<and> \<not> detail_param r"
    unfolding req
    using request_headers [of _ E matchId False False up now c]
          requests_detail [of _ E matchId False False up now c]
    by (auto simp: build_headers_def)
qed

theorem detail_flag_parsing_witness:
  "parse_detail (Some (QStr ''TrUe'')) = Some True
   \<and> parse_detail (Some (QStr ''yes'')) = Some False
   \<and> outcome (single_prediction (demo_env []) ''m1'' (Some (QStr ''1'')) None (scenario_ups 0) 0 Map.empty)
       = Returns 15 \<lparr>status = 200, body = home_pick\<rparr>
   \<and> map hdrs (requests (single_prediction (demo_env []) ''m1'' None None (scenario_ups 0) 0 Map.empty))
       = [[(''Accept'', ''application/json'')]]"
proof -
  note d1 = detail_flag_parsing [where s = "''TrUe''", THEN conjunct2, THEN conjunct1]
  note d2 = detail_flag_parsing [where s = "''yes''", THEN conjunct2, THEN conjunct1]
  have n1: "\<not> equals_true_ignoring_case ''1''" by (simp add: equals_true_ignoring_case_def)
  have a: "parse_detail (Some (QStr ''TrUe'')) = Some True"
    using d1 by (simp add: equals_true_ignoring_case_def)
  have b: "parse_detail (Some (QStr ''yes'')) = Some False"
    using d2 by (simp add: equals_true_ignoring_case_def)
  have "single_prediction (demo_env []) ''m1'' (Some (QStr ''1'')) None (scenario_ups 0) 0 Map.empty
      = fetch_and_reply (demo_env []) ''m1'' False False (scenario_ups 0) 0 Map.empty"
    using n1 detail_flag_parsing [where q = "Some (QStr ''1'')" and s = "''1''" and E = "demo_env []"
      and matchId = "''m1''" and auth = None and up = "scenario_ups 0" and now = 0 and c = Map.empty,
      THEN conjunct2, THEN conjunct2]
    by blast
  then have c: "outcome (single_prediction (demo_env []) ''m1'' (Some (QStr ''1'')) None (scenario_ups 0) 0 Map.empty)
       = Returns 15 \<lparr>status = 200, body = home_pick\<rparr>"
    by (simp add: fetch_and_reply_def fetch_public_m1 home_pick_def)
  have "requests (single_prediction (demo_env []) ''m1'' None None (scenario_ups 0) 0 Map.empty)
      = requests (fetchPredictorMatch (demo_env []) ''m1'' False False (scenario_ups 0) 0 Map.empty)"
    using detail_flag_parsing [where q = None and E = "demo_env []"
      and matchId = "''m1''" and auth = None and up = "scenario_ups 0" and now = 0 and c = Map.empty,
      THEN conjunct2, THEN conjunct2]
    by blast
  then have d: "map hdrs (requests (single_prediction (demo_env []) ''m1'' None None (scenario_ups 0) 0 Map.empty))
       = [[(''Accept'', ''application/json'')]]"
    by (simp add: fetch_public_m1)
  from a b c d show ?thesis by blast
qed

section \<open>The route of the aggregator\<close>

text \<open>
  The aggregator on its own: when every call returns, it replies 200 with the payloads that
  are not \<^verbatim>\<open>null\<close>, in the order of the ids, or with the fallback array when there is
  none; with \<open>N\<close> ids of which \<open>M\<close> calls returned \<^verbatim>\<open>null\<close>, \<open>N - M\<close> payloads remain.
\<close>

lemma start_all_length: "length (fst (start_all E ids now c)) = length ids"
  by (induction ids arbitrary: c) (simp_all add: Let_def case_prod_beta)

lemma settle_all_length: "length (settle_all sts ups k now) = length sts"
  by (induction sts arbitrary: k) auto

lemma returned_length: "returned cs = Some r \<Longrightarrow> length r = length cs"
  by (induction cs arbitrary: r rule: returned.induct) (auto split: option.splits)

lemma promise_all_length: "promise_all now cs = Returns t results \<Longrightarrow> length results = length cs"
  by (auto simp: promise_all_def split: list.splits option.splits dest: returned_length)

lemma aggregator_drops_failures:
  assumes st: "start_all E (PREDICTOR_MATCH_IDS E) now c = (sts, c1)"
    and pa: "promise_all now (map fst (settle_all sts ups 0 now)) = Returns t results"
  shows "length results = length (PREDICTOR_MATCH_IDS E)
    \<and> length (filter (\<lambda>r. r \<noteq> JNull) results)
        = length (PREDICTOR_MATCH_IDS E) - length (filter (\<lambda>r. r = JNull) results)
    \<and> outcome (aggregated_predictions E ups now c)
        = Returns t \<lparr>status = 200,
            body = (if filter (\<lambda>r. r \<noteq> JNull) results = [] then fallback_predictions E t
                    else JArr (filter (\<lambda>r. r \<noteq> JNull) results))\<rparr>"
proof -
  have "length sts = length (PREDICTOR_MATCH_IDS E)"
    using start_all_length [of E "PREDICTOR_MATCH_IDS E" now c] st by simp
  then have len: "length results = length (PREDICTOR_MATCH_IDS E)"
    using promise_all_length [OF pa] by (simp add: settle_all_length)
  have "length (filter (\<lambda>r. r \<noteq> JNull) results) + length (filter (\<lambda>r. r = JNull) results) = length results"
    using sum_length_filter_compl [of "\<lambda>r. r = JNull" results] by simp
  then have cnt: "length (filter (\<lambda>r. r \<noteq> JNull) results)
        = length (PREDICTOR_MATCH_IDS E) - length (filter (\<lambda>r. r = JNull) results)"
    using len by simp
  have "outcome (aggregated_predictions E ups now c)
        = Returns t \<lparr>status = 200,
            body = (if filter (\<lambda>r. r \<noteq> JNull) results = [] then fallback_predictions E t
                    else JArr (filter (\<lambda>r. r \<noteq> JNull) results))\<rparr>"
    using st pa by (simp add: aggregated_predictions_def Let_def)
  with len cnt show ?thesis by simp
qed

text \<open>
  The aggregator on its own does what the first end-to-end scenario describes: with the
  ids \<^verbatim>\<open>m1,m2\<close>, the first call answered and the second not, it replies with the one
  payload, once the timer of the second call has fired.
\<close>

lemma aggregator_scenario:
  "outcome (aggregated_predictions (demo_env [(''PREDICTOR_MATCH_IDS'', ''m1,m2'')]) scenario_ups 0 Map.empty)
     = Returns 5000 \<lparr>status = 200, body = JArr [home_pick]\<rparr>"
proof -
  let ?E = "demo_env [(''PREDICTOR_MATCH_IDS'', ''m1,m2'')]"
  have url: "PREDICTOR_URL ?E = ''http://localhost:5000''"
    by (simp add: PREDICTOR_URL_def env_or_def demo_env_def)
  have st: "\<exists>r1 r2. start_all ?E [''m1'', ''m2''] 0 Map.empty = ([Sent r1, Sent r2], Map.empty)"
    by (simp add: start_def getCache_def demo_valid Let_def)
  then obtain r1 r2 where s: "start_all ?E [''m1'', ''m2''] 0 Map.empty = ([Sent r1, Sent r2], Map.empty)"
    by blast
  have se: "map fst (settle_all [Sent r1, Sent r2] scenario_ups 0 0) = [Returns 15 home_pick, Returns 5000 JNull]"
    by (simp add: settle_def scenario_ups_def)
  have pa: "promise_all 0 [Returns 15 home_pick, Returns 5000 JNull] = Returns 5000 [home_pick, JNull]"
    by (simp add: promise_all_def)
  have hp: "home_pick \<noteq> JNull" by (simp add: home_pick_def)
  show ?thesis
    by (simp del: start_all.simps settle_all.simps
          add: aggregated_predictions_def demo_ids s se pa hp Let_def)
qed

text \<open>
  Claim C2. A request to \<^verbatim>\<open>GET /api/predictions\<close> is answered by the handler registered
  first for that path (line 28), which never calls \<^verbatim>\<open>next\<close>: whatever the configured ids
  are and whatever the predictor does, the reply is the array of three sample predictions,
  no request goes upstream and the cache is untouched. The aggregator of lines 204 to 223
  is never run.
\<close>

theorem predictions_route_serves_sample:
  "serve_get E \<lparr>path = [''api'', ''predictions''], query = qy, authorization = a\<rparr> ups now c
     = \<lparr>outcome = Returns now (sample_predictions E now), cache_after = c, requests = []\<rparr>
   \<and> (\<exists>xs. body (sample_predictions E now) = JArr xs \<and> length xs = 3)"
  by (simp add: serve_get_def predictions_dispatch sample_predictions_def Let_def)

text \<open>
  Claim C4. In the first end-to-end scenario (ids \<^verbatim>\<open>m1,m2\<close>, the first call answered with
  \<^verbatim>\<open>{pick:"Home"}\<close>, the second never answered) the reply to \<^verbatim>\<open>GET /api/predictions\<close>
  is the sample array of the first handler, which is not \<^verbatim>\<open>[{pick:"Home"}]\<close>, and no
  request goes upstream.
\<close>

theorem scenario_one_serves_sample:
  "outcome (serve_get (demo_env [(''PREDICTOR_MATCH_IDS'', ''m1,m2'')])
       \<lparr>path = [''api'', ''predictions''], query = Map.empty, authorization = None\<rparr>
       scenario_ups 0 Map.empty)
     = Returns 0 (sample_predictions (demo_env [(''PREDICTOR_MATCH_IDS'', ''m1,m2'')]) 0)
   \<and> body (sample_predictions (demo_env [(''PREDICTOR_MATCH_IDS'', ''m1,m2'')]) 0) \<noteq> JArr [home_pick]
   \<and> requests (serve_get (demo_env [(''PREDICTOR_MATCH_IDS'', ''m1,m2'')])
       \<lparr>path = [''api'', ''predictions''], query = Map.empty, authorization = None\<rparr>
       scenario_ups 0 Map.empty) = []"
  by (simp add: serve_get_def predictions_dispatch sample_predictions_def Let_def)

end
